theory Spec2Isabelle
  imports Complex_Main "HOL-Library.Char_ord" "HOL-Library.List_Lexorder"
begin

section \<open>The store-api edge function\<close>

text \<open>
  A model of \<^verbatim>\<open>supabase/functions/store-api/index.ts\<close>: the handler given to
  \<^verbatim>\<open>Deno.serve\<close> is a function of the request and of the tables of the resource
  store, and returns the response together with the tables as it leaves them.

  What lies outside the file is fixed as follows.
  \<^item> The resource store is a record of tables, each a list of rows. A query is the
    filter its \<^verbatim>\<open>eq\<close>/\<open>in\<close>/\<open>gte\<close>/\<open>lte\<close> calls spell out. The store
    reports an error where the shape of a query decides it (\<^verbatim>\<open>single\<close> and
    \<^verbatim>\<open>maybeSingle\<close> on the wrong number of rows, a range that is not a pair of
    natural offsets); other store-layer failures (network, constraints, row-level
    policies, malformed literals) are not modelled.
  \<^item> Rows carry the columns that the modelled handlers name. Timestamps and dates
    are ISO-8601 text, ordered lexicographically.
  \<^item> Numbers are exact rationals; the rounding of IEEE doubles is not modelled.
  \<^item> A parsed request body is read at the type at which the handlers use each field
    (text, number, array of text), each field being absent, null or a value.
  \<^item> The identity provider, the clock, number formatting and the identifier a new
    row receives are parameters (\<open>env\<close>).
  \<^item> The environment variables are set, so that constructing the client at the top of
    the \<^verbatim>\<open>try\<close> block does not throw.
\<close>

subsection \<open>JSON values and JavaScript helpers\<close>

datatype json =
    JNull
  | JBool bool
  | JNum rat
  | JStr string
  | JArr "json list"
  | JObj "(string \<times> json) list"

text \<open>A destructured field of a parsed body: \<^verbatim>\<open>undefined\<close>, \<^verbatim>\<open>null\<close> or a value.\<close>

datatype 'a field = Undefined | Null | Value 'a

text \<open>Truthiness of a text field: \<^verbatim>\<open>!x\<close> holds of undefined, null and the empty string.\<close>

fun truthy :: "string field \<Rightarrow> bool" where
  "truthy (Value s) = (s \<noteq> [])"
| "truthy _ = False"

fun is_undefined :: "'a field \<Rightarrow> bool" where
  "is_undefined Undefined = True"
| "is_undefined _ = False"

fun nullable :: "'a field \<Rightarrow> 'a option" where
  "nullable (Value v) = Some v"
| "nullable _ = None"

fun text_of :: "string field \<Rightarrow> string" where
  "text_of (Value s) = s"
| "text_of _ = []"

text \<open>\<^verbatim>\<open>x || d\<close> on an optional string: the default replaces null and the empty string.\<close>

fun or_default :: "string option \<Rightarrow> string \<Rightarrow> string" where
  "or_default None d = d"
| "or_default (Some s) d = (if s = [] then d else s)"

text \<open>\<^verbatim>\<open>String.prototype.split\<close> on a one-character separator.\<close>

fun split :: "char \<Rightarrow> string \<Rightarrow> string list" where
  "split c [] = [[]]"
| "split c (x # xs) =
     (if x = c then [] # split c xs
      else (case split c xs of [] \<Rightarrow> [[x]] | y # ys \<Rightarrow> (x # y) # ys))"

fun join :: "string \<Rightarrow> string list \<Rightarrow> string" where
  "join sep [] = []"
| "join sep [x] = x"
| "join sep (x # y # ys) = x @ sep @ join sep (y # ys)"

text \<open>\<^verbatim>\<open>Array.prototype.indexOf\<close>: the first index, or -1.\<close>

fun indexOf :: "'a list \<Rightarrow> 'a \<Rightarrow> int" where
  "indexOf [] a = -1"
| "indexOf (x # xs) a = (if x = a then 0 else (let i = indexOf xs a in if i < 0 then -1 else i + 1))"

definition startsWith :: "string \<Rightarrow> string \<Rightarrow> bool" where
  "startsWith s p = (take (length p) s = p)"

text \<open>\<^verbatim>\<open>path.split("/")[i]\<close>, with \<^verbatim>\<open>undefined\<close> read as the empty text.\<close>

definition segment :: "string \<Rightarrow> nat \<Rightarrow> string" where
  "segment path i = (let parts = split (CHR ''/'') path in if i < length parts then parts ! i else [])"

text \<open>The character class \<^verbatim>\<open>[a-zA-Z0-9-]\<close> and a segment matching \<^verbatim>\<open>[a-zA-Z0-9-]+\<close>.\<close>

definition id_char :: "char \<Rightarrow> bool" where
  "id_char c = ((CHR ''a'' \<le> c \<and> c \<le> CHR ''z'') \<or> (CHR ''A'' \<le> c \<and> c \<le> CHR ''Z'')
     \<or> (CHR ''0'' \<le> c \<and> c \<le> CHR ''9'') \<or> c = CHR ''-'')"

definition id_segment :: "string \<Rightarrow> bool" where
  "id_segment s = (s \<noteq> [] \<and> list_all id_char s)"

text \<open>\<^verbatim>\<open>toLowerCase\<close> on ASCII text.\<close>

definition lower_char :: "char \<Rightarrow> char" where
  "lower_char c = (if CHR ''A'' \<le> c \<and> c \<le> CHR ''Z'' then char_of (of_char c + (32::nat)) else c)"

definition toLowerCase :: "string \<Rightarrow> string" where
  "toLowerCase s = map lower_char s"

text \<open>
  \<^verbatim>\<open>parseInt(s)\<close> without a radix: leading white space, an optional sign, an optional
  \<^verbatim>\<open>0x\<close> prefix, then the longest run of digits; \<open>None\<close> is \<^verbatim>\<open>NaN\<close>.
  Characters are bytes, so the white space is that of Latin-1; the result is the exact
  integer, without the loss of precision of a double beyond 2^53.
\<close>

definition is_space :: "char \<Rightarrow> bool" where
  "is_space c = (c = CHR '' '' \<or> (9 \<le> (of_char c :: nat) \<and> (of_char c :: nat) \<le> 13)
     \<or> (of_char c :: nat) = 160)"

definition digit_val :: "char \<Rightarrow> nat option" where
  "digit_val c =
     (if CHR ''0'' \<le> c \<and> c \<le> CHR ''9'' then Some (of_char c - 48)
      else if CHR ''a'' \<le> c \<and> c \<le> CHR ''z'' then Some (of_char c - 87)
      else if CHR ''A'' \<le> c \<and> c \<le> CHR ''Z'' then Some (of_char c - 55)
      else None)"

definition is_digit :: "nat \<Rightarrow> char \<Rightarrow> bool" where
  "is_digit radix c = (case digit_val c of None \<Rightarrow> False | Some d \<Rightarrow> d < radix)"

definition parseInt :: "string \<Rightarrow> int option" where
  "parseInt s =
     (let t = dropWhile is_space s;
          neg = (take 1 t = ''-'');
          u = (if take 1 t = ''-'' \<or> take 1 t = ''+'' then drop 1 t else t);
          hex = (take 2 u = ''0x'' \<or> take 2 u = ''0X'');
          radix = (if hex then 16 else 10);
          v = (if hex then drop 2 u else u);
          ds = takeWhile (is_digit radix) v;
          n = foldl (\<lambda>a c. a * radix + the (digit_val c)) 0 ds
      in if ds = [] then None else Some (if neg then - int n else int n))"

text \<open>\<^verbatim>\<open>Math.min(x, 100)\<close>: \<^verbatim>\<open>NaN\<close> stays \<^verbatim>\<open>NaN\<close>.\<close>

definition min100 :: "int option \<Rightarrow> int option" where
  "min100 x = map_option (\<lambda>n. min n 100) x"

text \<open>
  \<^verbatim>\<open>String(n)\<close> of an integer, and of \<^verbatim>\<open>NaN\<close>: all the digits, also
  from 10^21 on, where JavaScript prints the exponent form.
\<close>

fun digits :: "nat \<Rightarrow> string" where
  "digits n = (if n < 10 then [char_of (48 + n)] else digits (n div 10) @ [char_of (48 + n mod 10)])"

declare digits.simps [simp del]

definition String_of :: "int option \<Rightarrow> string" where
  "String_of x = (case x of None \<Rightarrow> ''NaN''
     | Some n \<Rightarrow> if n < 0 then CHR ''-'' # digits (nat (- n)) else digits (nat n))"

text \<open>\<^verbatim>\<open>s.padStart(2, "0")\<close>.\<close>

definition padStart2 :: "string \<Rightarrow> string" where
  "padStart2 s = replicate (2 - length s) (CHR ''0'') @ s"

text \<open>\<^verbatim>\<open>JSON.stringify\<close> of a number: \<^verbatim>\<open>NaN\<close> and the infinities become null.\<close>

definition num_json :: "int option \<Rightarrow> json" where
  "num_json x = (case x of None \<Rightarrow> JNull | Some n \<Rightarrow> JNum (of_int n))"

definition opt_json :: "('a \<Rightarrow> json) \<Rightarrow> 'a option \<Rightarrow> json" where
  "opt_json f x = (case x of None \<Rightarrow> JNull | Some v \<Rightarrow> f v)"

text \<open>Reading a member of a JSON object, and a path of members.\<close>

fun get_member :: "json \<Rightarrow> string \<Rightarrow> json option" where
  "get_member (JObj kvs) k = map_of kvs k"
| "get_member _ k = None"

fun at_path :: "json \<Rightarrow> string list \<Rightarrow> json option" where
  "at_path j [] = Some j"
| "at_path j (k # ks) = (case get_member j k of None \<Rightarrow> None | Some v \<Rightarrow> at_path v ks)"

subsection \<open>Requests, responses and the environment\<close>

record payload =
  p_name :: "string field"
  p_slug :: "string field"
  p_bio :: "string field"
  p_logo :: "string field"
  p_description :: "string field"
  p_price :: "rat field"
  p_images :: "string list field"
  p_status :: "string field"
  p_answer :: "string field"
  p_review_ids :: "string list field"

text \<open>
  A request: method, \<^verbatim>\<open>url.pathname\<close>, \<^verbatim>\<open>url.searchParams\<close>, the
  \<^verbatim>\<open>Authorization\<close> header, and what \<^verbatim>\<open>await req.json()\<close> gives once
  destructured (\<open>None\<close> when it throws).
\<close>

record request =
  req_method :: string
  req_pathname :: string
  req_search :: "(string \<times> string) list"
  req_authorization :: "string option"
  req_json :: "payload option"

record response =
  status :: nat
  headers :: "(string \<times> string) list"
  body :: "json option"

text \<open>What a handler throws into the \<^verbatim>\<open>catch\<close> block of the dispatcher.\<close>

datatype thrown =
    StoreError
  | BodyError

datatype outcome = Responded response | Threw thrown

definition searchParams_get :: "request \<Rightarrow> string \<Rightarrow> string option" where
  "searchParams_get req k = map_of (req_search req) k"

definition corsHeaders :: "(string \<times> string) list" where
  "corsHeaders =
     [(''Access-Control-Allow-Origin'', ''*''),
      (''Access-Control-Allow-Headers'',
       ''authorization, x-client-info, apikey, content-type, x-supabase-client-platform, x-supabase-client-platform-version, x-supabase-client-runtime, x-supabase-client-runtime-version'')]"

definition json_response :: "nat \<Rightarrow> json \<Rightarrow> response" where
  "json_response st j =
     \<lparr>status = st, headers = corsHeaders @ [(''Content-Type'', ''application/json'')], body = Some j\<rparr>"

definition failure :: "string \<Rightarrow> json" where
  "failure msg = JObj [(''success'', JBool False), (''error'', JStr msg)]"

definition success :: "json \<Rightarrow> json" where
  "success d = JObj [(''success'', JBool True), (''data'', d)]"

subsection \<open>The resource store\<close>

record store =
  st_id :: string
  st_seller_id :: string
  st_name :: string
  st_slug :: string
  st_bio :: "string option"
  st_logo :: "string option"
  st_status :: string
  st_visibility :: string

record product =
  pr_id :: string
  pr_store_id :: string
  pr_name :: string
  pr_description :: "string option"
  pr_price :: "rat option"
  pr_images :: "string list option"
  pr_status :: string
  pr_updated_at :: string

record social_account =
  sa_id :: string
  sa_store_id :: string
  sa_platform :: string
  sa_page_url :: string
  sa_page_id :: "string option"

record product_review =
  rv_id :: string
  rv_seller_id :: string
  rv_product_id :: string
  rv_rating :: int
  rv_status :: string
  rv_is_published :: bool
  rv_published_at :: "string option"
  rv_moderation_status :: string
  rv_created_at :: string
  rv_updated_at :: string

record review_question =
  rq_id :: string
  rq_product_id :: string
  rq_is_answered :: bool
  rq_created_at :: string

record review_answer =
  ra_id :: string
  ra_question_id :: string
  ra_answerer_id :: string
  ra_answerer_type :: string
  ra_answer :: string
  ra_is_official :: bool

record transaction_row =
  tx_seller_id :: string
  tx_created_at :: string
  tx_status :: "string option"
  tx_amount :: "rat option"
  tx_seller_payout :: "rat option"
  tx_platform_fee :: "rat option"

record seller_expense =
  ex_id :: string
  ex_seller_id :: string
  ex_amount :: "rat option"
  ex_category :: "string option"
  ex_expense_date :: string
  ex_status :: string
  ex_updated_at :: string

record db =
  stores :: "store list"
  products :: "product list"
  social_accounts :: "social_account list"
  product_reviews :: "product_review list"
  review_questions :: "review_question list"
  review_answers :: "review_answer list"
  transactions :: "transaction_row list"
  seller_expenses :: "seller_expense list"

text \<open>
  The parameters of one invocation: the identity provider
  (\<^verbatim>\<open>supabase.auth.getUser\<close>: the user id, or \<open>None\<close> for an error or no user),
  \<^verbatim>\<open>Date.now()\<close>, \<^verbatim>\<open>toISOString\<close> of an instant, \<^verbatim>\<open>getFullYear\<close> of the
  present, \<^verbatim>\<open>toFixed(2)\<close>, the identifier the store gives a row inserted by this
  request, the message the \<^verbatim>\<open>catch\<close> block reads off a thrown value, and the routes
  of the dispatcher that are not modelled here (its 404 catch-all included).
\<close>

record env =
  getUser :: "string \<Rightarrow> string option"
  now :: int
  toISOString :: "int \<Rightarrow> string"
  getFullYear :: int
  toFixed2 :: "rat \<Rightarrow> string"
  new_id :: string
  message_of :: "thrown \<Rightarrow> string"
  other_routes :: "string \<Rightarrow> string \<Rightarrow> string \<Rightarrow> request \<Rightarrow> db \<Rightarrow> outcome \<times> db"

text \<open>
  \<^verbatim>\<open>maybeSingle()\<close> yields the row when exactly one matches and null otherwise (with
  an error, which its callers here drop, when several match); \<^verbatim>\<open>single()\<close> yields
  the row when exactly one matches and otherwise null with an error.
\<close>

fun maybeSingle :: "'a list \<Rightarrow> 'a option" where
  "maybeSingle [r] = Some r"
| "maybeSingle _ = None"

fun single :: "'a list \<Rightarrow> 'a option" where
  "single [r] = Some r"
| "single _ = None"

text \<open>
  \<^verbatim>\<open>range(from, to)\<close> asks for offset \<open>from\<close> and limit \<open>to - from + 1\<close>; the store
  rejects a range whose offset or limit is not a natural number.
\<close>

definition range_rows :: "int option \<Rightarrow> int option \<Rightarrow> 'a list \<Rightarrow> 'a list option" where
  "range_rows from to rows =
     (case (from, to) of
        (Some f, Some t) \<Rightarrow>
          if 0 \<le> f \<and> 0 \<le> t - f + 1 then Some (take (nat (t - f + 1)) (drop (nat f) rows)) else None
      | _ \<Rightarrow> None)"

text \<open>\<^verbatim>\<open>order(col, {ascending: false})\<close>.\<close>

definition order_desc :: "('a \<Rightarrow> 'k::linorder) \<Rightarrow> 'a list \<Rightarrow> 'a list" where
  "order_desc f rows = rev (sort_key f rows)"

definition order_asc :: "('a \<Rightarrow> 'k::linorder) \<Rightarrow> 'a list \<Rightarrow> 'a list" where
  "order_asc f rows = sort_key f rows"

subsection \<open>Rows as JSON\<close>

definition store_json :: "store \<Rightarrow> json" where
  "store_json s = JObj
     [(''id'', JStr (st_id s)), (''seller_id'', JStr (st_seller_id s)),
      (''name'', JStr (st_name s)), (''slug'', JStr (st_slug s)),
      (''bio'', opt_json JStr (st_bio s)), (''logo'', opt_json JStr (st_logo s)),
      (''status'', JStr (st_status s)), (''visibility'', JStr (st_visibility s))]"

definition product_json :: "product \<Rightarrow> json" where
  "product_json p = JObj
     [(''id'', JStr (pr_id p)), (''store_id'', JStr (pr_store_id p)),
      (''name'', JStr (pr_name p)), (''description'', opt_json JStr (pr_description p)),
      (''price'', opt_json JNum (pr_price p)),
      (''images'', opt_json (\<lambda>xs. JArr (map JStr xs)) (pr_images p)),
      (''status'', JStr (pr_status p)), (''updated_at'', JStr (pr_updated_at p))]"

definition social_account_json :: "social_account \<Rightarrow> json" where
  "social_account_json a = JObj
     [(''id'', JStr (sa_id a)), (''store_id'', JStr (sa_store_id a)),
      (''platform'', JStr (sa_platform a)), (''page_url'', JStr (sa_page_url a)),
      (''page_id'', opt_json JStr (sa_page_id a))]"

text \<open>A review with the embedded \<^verbatim>\<open>products(id, name, images)\<close>.\<close>

definition review_json :: "db \<Rightarrow> product_review \<Rightarrow> json" where
  "review_json d r = JObj
     [(''id'', JStr (rv_id r)), (''seller_id'', JStr (rv_seller_id r)),
      (''product_id'', JStr (rv_product_id r)), (''rating'', JNum (of_int (rv_rating r))),
      (''status'', JStr (rv_status r)), (''is_published'', JBool (rv_is_published r)),
      (''published_at'', opt_json JStr (rv_published_at r)),
      (''moderation_status'', JStr (rv_moderation_status r)),
      (''created_at'', JStr (rv_created_at r)), (''updated_at'', JStr (rv_updated_at r)),
      (''products'',
         opt_json (\<lambda>p. JObj [(''id'', JStr (pr_id p)), (''name'', JStr (pr_name p)),
                             (''images'', opt_json (\<lambda>xs. JArr (map JStr xs)) (pr_images p))])
           (maybeSingle [p \<leftarrow> products d. pr_id p = rv_product_id r]))]"

definition answer_json :: "review_answer \<Rightarrow> json" where
  "answer_json a = JObj
     [(''id'', JStr (ra_id a)), (''question_id'', JStr (ra_question_id a)),
      (''answerer_id'', JStr (ra_answerer_id a)), (''answerer_type'', JStr (ra_answerer_type a)),
      (''answer'', JStr (ra_answer a)), (''is_official'', JBool (ra_is_official a))]"

text \<open>A question with the embedded \<^verbatim>\<open>products(id, name)\<close> and its answers.\<close>

definition question_json :: "db \<Rightarrow> review_answer list \<Rightarrow> review_question \<Rightarrow> json" where
  "question_json d answers q = JObj
     [(''id'', JStr (rq_id q)), (''product_id'', JStr (rq_product_id q)),
      (''is_answered'', JBool (rq_is_answered q)), (''created_at'', JStr (rq_created_at q)),
      (''products'',
         opt_json (\<lambda>p. JObj [(''id'', JStr (pr_id p)), (''name'', JStr (pr_name p))])
           (maybeSingle [p \<leftarrow> products d. pr_id p = rq_product_id q])),
      (''answers'', JArr (map answer_json [a \<leftarrow> answers. ra_question_id a = rq_id q]))]"

definition expense_json :: "seller_expense \<Rightarrow> json" where
  "expense_json e = JObj
     [(''id'', JStr (ex_id e)), (''seller_id'', JStr (ex_seller_id e)),
      (''amount'', opt_json JNum (ex_amount e)), (''category'', opt_json JStr (ex_category e)),
      (''expense_date'', JStr (ex_expense_date e)), (''status'', JStr (ex_status e)),
      (''updated_at'', JStr (ex_updated_at e))]"

subsection \<open>Store, products and social accounts\<close>

definition ok :: "json \<Rightarrow> outcome" where
  "ok j = Responded (json_response 200 j)"

definition fail :: "nat \<Rightarrow> string \<Rightarrow> outcome" where
  "fail st msg = Responded (json_response st (failure msg))"

text \<open>\<^verbatim>\<open>POST /\<close>: create the caller's store.\<close>

definition post_store :: "env \<Rightarrow> string \<Rightarrow> request \<Rightarrow> db \<Rightarrow> outcome \<times> db" where
  "post_store e userId req d =
     (case req_json req of
        None \<Rightarrow> (Threw BodyError, d)
      | Some b \<Rightarrow>
          if \<not> truthy (p_name b) \<or> \<not> truthy (p_slug b)
          then (fail 400 ''Name and slug are required'', d)
          else (let existing = maybeSingle [s \<leftarrow> stores d. st_seller_id s = userId] in
            if existing \<noteq> None then (fail 400 ''User already has a store'', d)
            else (let slugExists = maybeSingle [s \<leftarrow> stores d. st_slug s = text_of (p_slug b)] in
              if slugExists \<noteq> None then (fail 400 ''Slug already taken'', d)
              else (let row = \<lparr>st_id = new_id e, st_seller_id = userId,
                                st_name = text_of (p_name b), st_slug = text_of (p_slug b),
                                st_bio = nullable (p_bio b), st_logo = nullable (p_logo b),
                                st_status = ''inactive'', st_visibility = ''PRIVATE''\<rparr>
                    in (Responded (json_response 201 (success (store_json row))),
                        d\<lparr>stores := stores d @ [row]\<rparr>)))))"

text \<open>\<^verbatim>\<open>GET /products\<close>.\<close>

definition get_products :: "env \<Rightarrow> string \<Rightarrow> request \<Rightarrow> db \<Rightarrow> outcome \<times> db" where
  "get_products e userId req d =
     (let status = or_default (searchParams_get req ''status'') ''all'';
          store = maybeSingle [s \<leftarrow> stores d. st_seller_id s = userId]
      in case store of
           None \<Rightarrow> (ok (success (JArr [])), d)
         | Some st \<Rightarrow>
             (let query = [p \<leftarrow> products d. pr_store_id p = st_id st];
                  query = (if status \<noteq> ''all'' then [p \<leftarrow> query. pr_status p = status] else query);
                  products = order_desc pr_updated_at query
              in (ok (success (JArr (map product_json products))), d)))"

text \<open>
  \<^verbatim>\<open>PUT /products/:id\<close>: the update is filtered by \<^verbatim>\<open>id\<close> alone;
  \<^verbatim>\<open>.select().single()\<close> makes the store refuse it unless exactly one row matches.
\<close>

definition update_product :: "env \<Rightarrow> payload \<Rightarrow> product \<Rightarrow> product" where
  "update_product e b p =
     p\<lparr>pr_name := (if truthy (p_name b) then text_of (p_name b) else pr_name p),
       pr_description := (if is_undefined (p_description b) then pr_description p else nullable (p_description b)),
       pr_price := (if is_undefined (p_price b) then pr_price p else nullable (p_price b)),
       pr_images := (if is_undefined (p_images b) then pr_images p else nullable (p_images b)),
       pr_status := (if truthy (p_status b) then text_of (p_status b) else pr_status p),
       pr_updated_at := toISOString e (now e)\<rparr>"

definition put_product :: "env \<Rightarrow> string \<Rightarrow> string \<Rightarrow> request \<Rightarrow> db \<Rightarrow> outcome \<times> db" where
  "put_product e userId path req d =
     (let productId = drop (length ''/products/'') path in
      case req_json req of
        None \<Rightarrow> (Threw BodyError, d)
      | Some b \<Rightarrow>
          (case single [p \<leftarrow> products d. pr_id p = productId] of
             None \<Rightarrow> (Threw StoreError, d)
           | Some p \<Rightarrow>
               (ok (success (product_json (update_product e b p))),
                d\<lparr>products := map (\<lambda>p. if pr_id p = productId then update_product e b p else p) (products d)\<rparr>)))"

text \<open>\<^verbatim>\<open>DELETE /products/:id\<close>: the delete is filtered by \<^verbatim>\<open>id\<close> alone.\<close>

definition delete_product :: "env \<Rightarrow> string \<Rightarrow> string \<Rightarrow> request \<Rightarrow> db \<Rightarrow> outcome \<times> db" where
  "delete_product e userId path req d =
     (let productId = drop (length ''/products/'') path in
      (ok (JObj [(''success'', JBool True), (''message'', JStr ''Product deleted'')]),
       d\<lparr>products := [p \<leftarrow> products d. pr_id p \<noteq> productId]\<rparr>))"

text \<open>\<^verbatim>\<open>GET /social\<close>.\<close>

definition get_social :: "env \<Rightarrow> string \<Rightarrow> request \<Rightarrow> db \<Rightarrow> outcome \<times> db" where
  "get_social e userId req d =
     (let store = maybeSingle [s \<leftarrow> stores d. st_seller_id s = userId]
      in case store of
           None \<Rightarrow> (ok (success (JArr [])), d)
         | Some st \<Rightarrow>
             (let accounts = [a \<leftarrow> social_accounts d. sa_store_id a = st_id st]
              in (ok (success (JArr (map social_account_json accounts))), d)))"

text \<open>\<^verbatim>\<open>DELETE /social/:id\<close>: the delete is filtered by \<^verbatim>\<open>id\<close> alone.\<close>

definition delete_social :: "env \<Rightarrow> string \<Rightarrow> string \<Rightarrow> request \<Rightarrow> db \<Rightarrow> outcome \<times> db" where
  "delete_social e userId path req d =
     (let accountId = drop (length ''/social/'') path in
      (ok (JObj [(''success'', JBool True), (''message'', JStr ''Account disconnected'')]),
       d\<lparr>social_accounts := [a \<leftarrow> social_accounts d. sa_id a \<noteq> accountId]\<rparr>))"

subsection \<open>Reviews and questions\<close>

text \<open>
  \<^verbatim>\<open>Math.ceil(total / limit)\<close> as \<^verbatim>\<open>JSON.stringify\<close> prints it: division by zero
  gives an infinity or \<^verbatim>\<open>NaN\<close>, printed as null.
\<close>

definition pages_json :: "nat \<Rightarrow> int option \<Rightarrow> json" where
  "pages_json n limit =
     (case limit of
        None \<Rightarrow> JNull
      | Some l \<Rightarrow> if l = 0 then JNull else JNum (of_int \<lceil>(of_nat n :: rat) / of_int l\<rceil>))"

definition pagination_json :: "int option \<Rightarrow> int option \<Rightarrow> nat \<Rightarrow> json" where
  "pagination_json page limit n = JObj
     [(''page'', num_json page), (''limit'', num_json limit),
      (''total'', JNum (of_nat n)), (''pages'', pages_json n limit)]"

text \<open>\<^verbatim>\<open>(page - 1) * limit\<close> and \<^verbatim>\<open>page * limit - 1\<close>.\<close>

definition range_from :: "int option \<Rightarrow> int option \<Rightarrow> int option" where
  "range_from page limit =
     (case (page, limit) of (Some p, Some l) \<Rightarrow> Some ((p - 1) * l) | _ \<Rightarrow> None)"

definition range_to :: "int option \<Rightarrow> int option \<Rightarrow> int option" where
  "range_to page limit =
     (case (page, limit) of (Some p, Some l) \<Rightarrow> Some (p * l - 1) | _ \<Rightarrow> None)"

text \<open>\<^verbatim>\<open>GET /reviews\<close>.\<close>

definition get_reviews :: "env \<Rightarrow> string \<Rightarrow> request \<Rightarrow> db \<Rightarrow> outcome \<times> db" where
  "get_reviews e userId req d =
     (let status = or_default (searchParams_get req ''status'') ''all'';
          rating = or_default (searchParams_get req ''rating'') [];
          productId = or_default (searchParams_get req ''product_id'') [];
          sort = or_default (searchParams_get req ''sort'') ''recent'';
          page = parseInt (or_default (searchParams_get req ''page'') ''1'');
          limit = min100 (parseInt (or_default (searchParams_get req ''limit'') ''50''));
          q = [r \<leftarrow> product_reviews d. rv_seller_id r = userId];
          q = (if status \<noteq> ''all'' then [r \<leftarrow> q. rv_status r = status] else q);
          q = (if rating \<noteq> [] then [r \<leftarrow> q. Some (rv_rating r) = parseInt rating] else q);
          q = (if productId \<noteq> [] then [r \<leftarrow> q. rv_product_id r = productId] else q);
          q = (if sort = ''rating_high'' then order_desc rv_rating q
               else if sort = ''rating_low'' then order_asc rv_rating q
               else order_desc rv_created_at q);
          count = length q
      in case range_rows (range_from page limit) (range_to page limit) q of
           None \<Rightarrow> (Threw StoreError, d)
         | Some reviews \<Rightarrow>
             (ok (success (JObj
                [(''reviews'', JArr (map (review_json d) reviews)),
                 (''pagination'', pagination_json page limit count)])), d))"

text \<open>\<^verbatim>\<open>GET /reviews/questions\<close>.\<close>

definition get_reviews_questions :: "env \<Rightarrow> string \<Rightarrow> request \<Rightarrow> db \<Rightarrow> outcome \<times> db" where
  "get_reviews_questions e userId req d =
     (let store = maybeSingle [s \<leftarrow> stores d. st_seller_id s = userId]
      in case store of
           None \<Rightarrow> (ok (success (JArr [])), d)
         | Some st \<Rightarrow>
             (let productIds = map pr_id [p \<leftarrow> products d. pr_store_id p = st_id st]
              in if productIds = [] then (ok (success (JArr [])), d)
                 else (let questions = order_desc rq_created_at
                             [q \<leftarrow> review_questions d. rq_product_id q \<in> set productIds \<and> \<not> rq_is_answered q];
                           qIds = map rq_id questions;
                           answers = [a \<leftarrow> review_answers d. ra_question_id a \<in>
                              set (if qIds \<noteq> [] then qIds else [''00000000-0000-0000-0000-000000000000''])];
                           withAnswers = map (question_json d answers) questions
                       in (ok (success (JArr withAnswers)), d))))"

text \<open>The route pattern \<^verbatim>\<open>^\/questions\/[a-zA-Z0-9-]+\/answer$\<close>.\<close>

definition is_question_answer_path :: "string \<Rightarrow> bool" where
  "is_question_answer_path path =
     (case split (CHR ''/'') path of
        [a, b, c, f] \<Rightarrow> a = [] \<and> b = ''questions'' \<and> id_segment c \<and> f = ''answer''
      | _ \<Rightarrow> False)"

text \<open>\<^verbatim>\<open>POST /questions/:id/answer\<close>.\<close>

definition post_question_answer :: "env \<Rightarrow> string \<Rightarrow> string \<Rightarrow> request \<Rightarrow> db \<Rightarrow> outcome \<times> db" where
  "post_question_answer e userId path req d =
     (let questionId = segment path 2 in
      case req_json req of
        None \<Rightarrow> (Threw BodyError, d)
      | Some b \<Rightarrow>
          if \<not> truthy (p_answer b) \<or> length (text_of (p_answer b)) < 5
          then (fail 400 ''Answer min 5 chars'', d)
          else (case single [q \<leftarrow> review_questions d. rq_id q = questionId] of
             None \<Rightarrow> (fail 404 ''Question not found'', d)
           | Some q \<Rightarrow>
               (let product = single [p \<leftarrow> products d. pr_id p = rq_product_id q];
                    store = (case product of
                               None \<Rightarrow> None
                             | Some p \<Rightarrow> single [s \<leftarrow> stores d. st_id s = pr_store_id p])
                in if store = None \<or> map_option st_seller_id store \<noteq> Some userId
                   then (fail 403 ''Unauthorized'', d)
                   else (let a = \<lparr>ra_id = new_id e, ra_question_id = questionId,
                                    ra_answerer_id = userId, ra_answerer_type = ''seller'',
                                    ra_answer = take 2000 (text_of (p_answer b)),
                                    ra_is_official = True\<rparr>
                         in (ok (success (answer_json a)),
                             d\<lparr>review_answers := review_answers d @ [a],
                               review_questions :=
                                 map (\<lambda>q. if rq_id q = questionId then q\<lparr>rq_is_answered := True\<rparr> else q)
                                   (review_questions d)\<rparr>)))))"

text \<open>\<^verbatim>\<open>POST /reviews/bulk-update\<close>.\<close>

definition moderate :: "env \<Rightarrow> string \<Rightarrow> product_review \<Rightarrow> product_review" where
  "moderate e newStatus r =
     r\<lparr>rv_status := newStatus,
       rv_is_published := (newStatus = ''approved''),
       rv_published_at := (if newStatus = ''approved'' then Some (toISOString e (now e)) else None),
       rv_moderation_status := ''reviewed'',
       rv_updated_at := toISOString e (now e)\<rparr>"

definition post_reviews_bulk_update :: "env \<Rightarrow> string \<Rightarrow> request \<Rightarrow> db \<Rightarrow> outcome \<times> db" where
  "post_reviews_bulk_update e userId req d =
     (case req_json req of
        None \<Rightarrow> (Threw BodyError, d)
      | Some b \<Rightarrow>
          (case (p_review_ids b, p_status b) of
             (Value review_ids, Value newStatus) \<Rightarrow>
               if newStatus \<notin> set [''approved'', ''rejected'']
               then (fail 400 ''review_ids array and status required'', d)
               else (ok (JObj [(''success'', JBool True), (''updated'', JNum (of_nat (length review_ids)))]),
                     d\<lparr>product_reviews :=
                        map (\<lambda>r. if rv_seller_id r = userId \<and> rv_id r \<in> set review_ids
                                  then moderate e newStatus r else r) (product_reviews d)\<rparr>)
           | _ \<Rightarrow> (fail 400 ''review_ids array and status required'', d)))"

subsection \<open>Financial reports and expenses\<close>

text \<open>\<^verbatim>\<open>(t.status || "").toLowerCase() === st\<close>.\<close>

definition has_status :: "string \<Rightarrow> transaction_row \<Rightarrow> bool" where
  "has_status st t = (toLowerCase (case tx_status t of None \<Rightarrow> [] | Some s \<Rightarrow> s) = st)"

text \<open>\<^verbatim>\<open>Number(t.seller_payout ?? t.amount ?? 0)\<close>.\<close>

definition payout :: "transaction_row \<Rightarrow> rat" where
  "payout t =
     (case tx_seller_payout t of
        Some x \<Rightarrow> x
      | None \<Rightarrow> (case tx_amount t of Some x \<Rightarrow> x | None \<Rightarrow> 0))"

text \<open>\<^verbatim>\<open>Number(t.amount ?? 0)\<close> and \<^verbatim>\<open>Number(t.platform_fee ?? 0)\<close>.\<close>

definition amount_of :: "transaction_row \<Rightarrow> rat" where
  "amount_of t = (case tx_amount t of Some x \<Rightarrow> x | None \<Rightarrow> 0)"

definition fee_of :: "transaction_row \<Rightarrow> rat" where
  "fee_of t = (case tx_platform_fee t of Some x \<Rightarrow> x | None \<Rightarrow> 0)"

text \<open>\<^verbatim>\<open>Number(e.amount) || 0\<close>.\<close>

definition expense_amount :: "seller_expense \<Rightarrow> rat" where
  "expense_amount x = (case ex_amount x of Some a \<Rightarrow> a | None \<Rightarrow> 0)"

text \<open>\<^verbatim>\<open>rows.reduce((s, t) => s + f(t), 0)\<close>, on exact rationals.\<close>

definition reduce_sum :: "('a \<Rightarrow> rat) \<Rightarrow> 'a list \<Rightarrow> rat" where
  "reduce_sum f rows = foldl (\<lambda>s t. s + f t) 0 rows"

text \<open>The two queries that the three reports share.\<close>

definition tx_query :: "string \<Rightarrow> string \<Rightarrow> string \<Rightarrow> db \<Rightarrow> transaction_row list" where
  "tx_query userId startDate endDate d =
     [t \<leftarrow> transactions d. tx_seller_id t = userId \<and> startDate \<le> tx_created_at t
        \<and> tx_created_at t \<le> endDate @ ''T23:59:59'']"

definition expense_query :: "string \<Rightarrow> string \<Rightarrow> string \<Rightarrow> db \<Rightarrow> seller_expense list" where
  "expense_query userId startDate endDate d =
     [x \<leftarrow> seller_expenses d. ex_seller_id x = userId \<and> ex_status x = ''active''
        \<and> startDate \<le> ex_expense_date x \<and> ex_expense_date x \<le> endDate]"

text \<open>\<^verbatim>\<open>GET /financial/dashboard\<close>.\<close>

definition dashboard_range :: "env \<Rightarrow> request \<Rightarrow> string \<times> string" where
  "dashboard_range e req =
     (let period = or_default (searchParams_get req ''period'') ''30d'';
          days = (if period = ''7d'' then 7 else if period = ''90d'' then 90
                  else if period = ''1y'' then 365 else 30);
          startDate = take 10 (toISOString e (now e - days * 86400000));
          endDate = take 10 (toISOString e (now e))
      in (startDate, endDate))"

definition get_financial_dashboard :: "env \<Rightarrow> string \<Rightarrow> request \<Rightarrow> db \<Rightarrow> outcome \<times> db" where
  "get_financial_dashboard e userId req d =
     (let (startDate, endDate) = dashboard_range e req;
          txRows = tx_query userId startDate endDate d;
          completed = filter (has_status ''completed'') txRows;
          refunded = filter (has_status ''refunded'') txRows;
          revenue = reduce_sum payout completed;
          refunds = reduce_sum amount_of refunded;
          commission = reduce_sum fee_of completed;
          expenseRows = expense_query userId startDate endDate d;
          expenses = reduce_sum expense_amount expenseRows;
          grossProfit = revenue - refunds;
          netProfit = grossProfit - expenses;
          profitMargin = (if revenue > 0 then toFixed2 e ((netProfit / revenue) * 100) else ''0'')
      in (ok (success (JObj
            [(''summary'', JObj
                [(''revenue'', JNum revenue), (''refunds'', JNum refunds),
                 (''gross_profit'', JNum grossProfit), (''commission'', JNum commission),
                 (''payment_fees'', JNum 0), (''expenses'', JNum expenses),
                 (''net_revenue'', JNum grossProfit), (''net_profit'', JNum netProfit),
                 (''profit_margin'', JStr profitMargin)]),
             (''trend'', JArr []), (''breakdown'', JArr [])])), d))"

text \<open>\<^verbatim>\<open>GET /financial/expenses\<close>.\<close>

definition get_financial_expenses :: "env \<Rightarrow> string \<Rightarrow> request \<Rightarrow> db \<Rightarrow> outcome \<times> db" where
  "get_financial_expenses e userId req d =
     (let category = or_default (searchParams_get req ''category'') [];
          startDate = or_default (searchParams_get req ''start_date'') [];
          endDate = or_default (searchParams_get req ''end_date'') [];
          page = parseInt (or_default (searchParams_get req ''page'') ''1'');
          limit = min100 (parseInt (or_default (searchParams_get req ''limit'') ''50''));
          q = [x \<leftarrow> seller_expenses d. ex_seller_id x = userId \<and> ex_status x = ''active''];
          q = (if category \<noteq> [] then [x \<leftarrow> q. ex_category x = Some category] else q);
          q = (if startDate \<noteq> [] then [x \<leftarrow> q. startDate \<le> ex_expense_date x] else q);
          q = (if endDate \<noteq> [] then [x \<leftarrow> q. ex_expense_date x \<le> endDate] else q);
          q = order_desc ex_expense_date q;
          count = length q
      in case range_rows (range_from page limit) (range_to page limit) q of
           None \<Rightarrow> (Threw StoreError, d)
         | Some expenses \<Rightarrow>
             (ok (success (JObj
                [(''expenses'', JArr (map expense_json expenses)),
                 (''pagination'', pagination_json page limit count)])), d))"

text \<open>The route pattern \<^verbatim>\<open>^\/financial\/expenses\/[a-zA-Z0-9-]+$\<close>.\<close>

definition is_expense_path :: "string \<Rightarrow> bool" where
  "is_expense_path path =
     (case split (CHR ''/'') path of
        [a, b, c, f] \<Rightarrow> a = [] \<and> b = ''financial'' \<and> c = ''expenses'' \<and> id_segment f
      | _ \<Rightarrow> False)"

text \<open>\<^verbatim>\<open>DELETE /financial/expenses/:id\<close>.\<close>

definition delete_financial_expense :: "env \<Rightarrow> string \<Rightarrow> string \<Rightarrow> request \<Rightarrow> db \<Rightarrow> outcome \<times> db" where
  "delete_financial_expense e userId path req d =
     (let expenseId = segment path 3 in
      (ok (JObj [(''success'', JBool True)]),
       d\<lparr>seller_expenses :=
          map (\<lambda>x. if ex_id x = expenseId \<and> ex_seller_id x = userId
                    then x\<lparr>ex_status := ''deleted'', ex_updated_at := toISOString e (now e)\<rparr> else x)
            (seller_expenses d)\<rparr>))"

text \<open>
  \<^verbatim>\<open>byCategory[cat] = (byCategory[cat] || 0) + amount\<close>, keys in order of first use.
  The object is an association list: a category named like a member of
  \<^verbatim>\<open>Object.prototype\<close> (\<^verbatim>\<open>constructor\<close>) is an ordinary key here.
\<close>

fun add_category :: "(string \<times> rat) list \<Rightarrow> string \<Rightarrow> rat \<Rightarrow> (string \<times> rat) list" where
  "add_category [] k v = [(k, v)]"
| "add_category ((k', v') # kvs) k v =
     (if k' = k then (k', v' + v) # kvs else (k', v') # add_category kvs k v)"

text \<open>\<^verbatim>\<open>GET /financial/reports/profit-loss\<close>.\<close>

definition profit_loss_range :: "env \<Rightarrow> request \<Rightarrow> string \<times> string" where
  "profit_loss_range e req =
     (let startDate = or_default (searchParams_get req ''start_date'')
                        (take 10 (toISOString e (now e - 30 * 86400000)));
          endDate = or_default (searchParams_get req ''end_date'') (take 10 (toISOString e (now e)))
      in (startDate, endDate))"

definition get_financial_profit_loss :: "env \<Rightarrow> string \<Rightarrow> request \<Rightarrow> db \<Rightarrow> outcome \<times> db" where
  "get_financial_profit_loss e userId req d =
     (let (startDate, endDate) = profit_loss_range e req;
          txRows = tx_query userId startDate endDate d;
          completed = filter (has_status ''completed'') txRows;
          refunded = filter (has_status ''refunded'') txRows;
          revenue = reduce_sum payout completed;
          refunds = reduce_sum amount_of refunded;
          commission = reduce_sum fee_of completed;
          expenseRows = expense_query userId startDate endDate d;
          expenses = reduce_sum expense_amount expenseRows;
          byCategory = foldl (\<lambda>m x. add_category m (or_default (ex_category x) ''other'') (expense_amount x))
                         [] expenseRows;
          grossProfit = revenue - refunds;
          netProfit = grossProfit - expenses;
          profitMargin = (if revenue > 0 then toFixed2 e ((netProfit / revenue) * 100) else ''0'')
      in (ok (success (JObj
            [(''period'', JObj [(''start'', JStr startDate), (''end'', JStr endDate)]),
             (''revenue'', JObj
                [(''gross_sales'', JNum revenue), (''refunds'', JNum refunds),
                 (''net_sales'', JNum grossProfit)]),
             (''gross_profit'', JNum grossProfit),
             (''expenses'', JObj
                [(''platform_commission'', JNum commission), (''payment_processing'', JNum 0),
                 (''operating_expenses'', JNum expenses),
                 (''total_expenses'', JNum (commission + expenses)),
                 (''by_category'', JObj (map (\<lambda>(k, v). (k, JNum v)) byCategory))]),
             (''net_profit'', JNum netProfit),
             (''profit_margin'', JStr profitMargin)])), d))"

text \<open>\<^verbatim>\<open>GET /financial/reports/tax\<close>.\<close>

definition tax_range :: "env \<Rightarrow> request \<Rightarrow> string \<times> string" where
  "tax_range e req =
     (let year = parseInt (or_default (searchParams_get req ''year'') (String_of (Some (getFullYear e))));
          quarter = or_default (searchParams_get req ''quarter'') [];
          q = parseInt quarter;
          quarterly = (quarter \<noteq> [] \<and> quarter \<in> set [''1'', ''2'', ''3'', ''4'']);
          startDate = (if quarterly
             then String_of year @ ''-'' @ padStart2 (String_of (map_option (\<lambda>q. (q - 1) * 3 + 1) q)) @ ''-01''
             else String_of year @ ''-01-01'');
          endDate = (if quarterly
             then String_of year @ ''-'' @ padStart2 (String_of (map_option (\<lambda>q. q * 3) q)) @ ''-''
                    @ (if q = Some 2 then ''30'' else if q = Some 4 then ''31'' else ''31'')
             else String_of year @ ''-12-31'')
      in (startDate, endDate))"

definition get_financial_tax :: "env \<Rightarrow> string \<Rightarrow> request \<Rightarrow> db \<Rightarrow> outcome \<times> db" where
  "get_financial_tax e userId req d =
     (let year = parseInt (or_default (searchParams_get req ''year'') (String_of (Some (getFullYear e))));
          quarter = or_default (searchParams_get req ''quarter'') [];
          q = parseInt quarter;
          (startDate, endDate) = tax_range e req;
          txRows = tx_query userId startDate endDate d;
          completed = filter (has_status ''completed'') txRows;
          refunded = filter (has_status ''refunded'') txRows;
          totalSales = reduce_sum payout completed;
          totalRefunds = reduce_sum amount_of refunded;
          expenseRows = expense_query userId startDate endDate d;
          totalExpenses = reduce_sum expense_amount expenseRows;
          taxableIncome = totalSales - totalRefunds - totalExpenses
      in (ok (success (JObj
            [(''report_type'', JStr (if quarter \<noteq> [] then ''quarterly'' else ''annual'')),
             (''year'', num_json year),
             (''quarter'', (if quarter \<noteq> [] then num_json q else JNull)),
             (''total_sales'', JNum totalSales),
             (''total_refunds'', JNum totalRefunds),
             (''total_expenses'', JNum totalExpenses),
             (''taxable_income'', JNum taxableIncome),
             (''status'', JStr ''draft'')])), d))"

subsection \<open>The dispatcher\<close>

text \<open>
  The path below the function name: the non-empty segments after \<^verbatim>\<open>store-api\<close>,
  or the whole pathname when that segment is missing.
\<close>

definition norm_path :: "string \<Rightarrow> string" where
  "norm_path pathname =
     (let pathParts = filter (\<lambda>s. s \<noteq> []) (split (CHR ''/'') pathname);
          fnIdx = indexOf pathParts ''store-api''
      in if fnIdx \<ge> 0 then ''/'' @ join ''/'' (drop (nat (fnIdx + 1)) pathParts) else pathname)"

text \<open>
  The chain of route tests. The tests are pairwise exclusive, so the routes that are
  not modelled are gathered in \<open>other_routes\<close> at the end.
\<close>

definition route :: "env \<Rightarrow> string \<Rightarrow> request \<Rightarrow> db \<Rightarrow> outcome \<times> db" where
  "route e userId req d =
     (let path = norm_path (req_pathname req); method = req_method req in
      if method = ''POST'' \<and> (path = [] \<or> path = ''/'') then post_store e userId req d
      else if method = ''GET'' \<and> path = ''/products'' then get_products e userId req d
      else if method = ''PUT'' \<and> startsWith path ''/products/'' then put_product e userId path req d
      else if method = ''DELETE'' \<and> startsWith path ''/products/'' then delete_product e userId path req d
      else if method = ''GET'' \<and> path = ''/social'' then get_social e userId req d
      else if method = ''DELETE'' \<and> startsWith path ''/social/'' then delete_social e userId path req d
      else if method = ''GET'' \<and> path = ''/reviews'' then get_reviews e userId req d
      else if method = ''GET'' \<and> path = ''/reviews/questions'' then get_reviews_questions e userId req d
      else if method = ''POST'' \<and> is_question_answer_path path then post_question_answer e userId path req d
      else if method = ''POST'' \<and> path = ''/reviews/bulk-update'' then post_reviews_bulk_update e userId req d
      else if method = ''GET'' \<and> path = ''/financial/dashboard'' then get_financial_dashboard e userId req d
      else if method = ''GET'' \<and> path = ''/financial/expenses'' then get_financial_expenses e userId req d
      else if method = ''DELETE'' \<and> is_expense_path path then delete_financial_expense e userId path req d
      else if method = ''GET'' \<and> path = ''/financial/reports/profit-loss''
        then get_financial_profit_loss e userId req d
      else if method = ''GET'' \<and> path = ''/financial/reports/tax'' then get_financial_tax e userId req d
      else other_routes e userId method path req d)"

text \<open>The bearer-token check: the user id, or \<open>None\<close> where the source answers 401.\<close>

definition authenticate :: "env \<Rightarrow> request \<Rightarrow> string option" where
  "authenticate e req =
     (case req_authorization req of
        None \<Rightarrow> None
      | Some authHeader \<Rightarrow>
          if \<not> startsWith authHeader ''Bearer '' then None
          else getUser e (drop (length ''Bearer '') authHeader))"

text \<open>The function given to \<^verbatim>\<open>Deno.serve\<close>.\<close>

definition serve :: "env \<Rightarrow> request \<Rightarrow> db \<Rightarrow> response \<times> db" where
  "serve e req d =
     (if req_method req = ''OPTIONS'' then (\<lparr>status = 200, headers = corsHeaders, body = None\<rparr>, d)
      else case authenticate e req of
             None \<Rightarrow> (json_response 401 (failure ''Unauthorized''), d)
           | Some userId \<Rightarrow>
               (case route e userId req d of
                  (Responded r, d') \<Rightarrow> (r, d')
                | (Threw x, d') \<Rightarrow> (json_response 500 (failure (message_of e x)), d')))"

subsection \<open>Invariants of the data model\<close>

text \<open>One store per seller and one store per slug.\<close>

definition stores_wf :: "db \<Rightarrow> bool" where
  "stores_wf d = (distinct (map st_seller_id (stores d)) \<and> distinct (map st_slug (stores d)))"

text \<open>The identifiers of questions, products and stores are keys.\<close>

definition keys_wf :: "db \<Rightarrow> bool" where
  "keys_wf d = (distinct (map rq_id (review_questions d)) \<and> distinct (map pr_id (products d))
     \<and> distinct (map st_id (stores d)))"

subsection \<open>Reading an outcome\<close>

definition outcome_status :: "outcome \<Rightarrow> nat option" where
  "outcome_status out = (case out of Responded r \<Rightarrow> Some (status r) | Threw x \<Rightarrow> None)"

definition outcome_at :: "outcome \<Rightarrow> string list \<Rightarrow> json option" where
  "outcome_at out ks =
     (case out of
        Responded r \<Rightarrow> (case body r of None \<Rightarrow> None | Some j \<Rightarrow> at_path j ks)
      | Threw x \<Rightarrow> None)"

definition response_at :: "response \<Rightarrow> string list \<Rightarrow> json option" where
  "response_at r ks = (case body r of None \<Rightarrow> None | Some j \<Rightarrow> at_path j ks)"

text \<open>
  A status in the words of the specification, read without regard to letter case: the
  stored text has the letters of \<open>st\<close>, each small or capital.
\<close>

definition status_ignoring_case :: "string \<Rightarrow> string option \<Rightarrow> bool" where
  "status_ignoring_case st s =
     (case s of
        None \<Rightarrow> False
      | Some x \<Rightarrow> list_all2 (\<lambda>a c. a = c \<or> (of_char a :: nat) + 32 = of_char c) x st)"

text \<open>
  The pagination contract in the words of the specification: a 200 response whose
  \<open>data\<close> holds the rows under \<open>key\<close>, at most \<open>limit\<close> of them, and
  \<^verbatim>\<open>pagination: {page, limit, total, pages}\<close> with \<open>limit\<close> the requested
  limit capped at 100 and \<open>pages = ceil(total / limit)\<close>.
\<close>

definition spec_paginated :: "outcome \<Rightarrow> string \<Rightarrow> int \<Rightarrow> int \<Rightarrow> bool" where
  "spec_paginated out key page requested =
     (let limit = min requested 100 in
      outcome_status out = Some 200 \<and>
      (\<exists>rows n. outcome_at out [''data'', key] = Some (JArr rows) \<and> int (length rows) \<le> limit \<and>
         outcome_at out [''data'', ''pagination''] = Some (JObj
           [(''page'', JNum (of_int page)), (''limit'', JNum (of_int limit)),
            (''total'', JNum (of_nat n)),
            (''pages'', JNum (of_int \<lceil>(of_nat n :: rat) / of_int limit\<rceil>))])))"

definition object_keys :: "json \<Rightarrow> string list" where
  "object_keys j = (case j of JObj kvs \<Rightarrow> map fst kvs | _ \<Rightarrow> [])"

subsection \<open>A small store for the examples\<close>

text \<open>
  Two sellers, each with a store and a product; a review, an expense, a question and a
  social account belonging to the first seller; one completed sale of the first seller.
\<close>

definition example_env :: env where
  "example_env =
     \<lparr>getUser = (\<lambda>token. if token = ''token-alice'' then Some ''alice''
                          else if token = ''token-bob'' then Some ''bob''
                          else if token = ''token-carol'' then Some ''carol'' else None),
      now = 1718452800000,
      toISOString = (\<lambda>t. ''2024-06-15T12:00:00.000Z''),
      getFullYear = 2024,
      toFixed2 = (\<lambda>x. ''100.00''),
      new_id = ''new-1'',
      message_of = (\<lambda>x. ''Unknown error''),
      other_routes = (\<lambda>userId method path req d. (fail 404 ''Not found'', d))\<rparr>"

definition example_db :: db where
  "example_db =
     \<lparr>stores =
        [\<lparr>st_id = ''s-alice'', st_seller_id = ''alice'', st_name = ''Alice shop'', st_slug = ''alice-shop'',
          st_bio = None, st_logo = None, st_status = ''active'', st_visibility = ''PUBLIC''\<rparr>,
         \<lparr>st_id = ''s-bob'', st_seller_id = ''bob'', st_name = ''Bob shop'', st_slug = ''bob-shop'',
          st_bio = None, st_logo = None, st_status = ''active'', st_visibility = ''PUBLIC''\<rparr>],
      products =
        [\<lparr>pr_id = ''p1'', pr_store_id = ''s-alice'', pr_name = ''Lamp'', pr_description = None,
          pr_price = Some 20, pr_images = Some [], pr_status = ''ACTIVE'',
          pr_updated_at = ''2024-06-01T08:00:00.000Z''\<rparr>,
         \<lparr>pr_id = ''p2'', pr_store_id = ''s-bob'', pr_name = ''Chair'', pr_description = None,
          pr_price = Some 35, pr_images = Some [], pr_status = ''ACTIVE'',
          pr_updated_at = ''2024-06-02T08:00:00.000Z''\<rparr>],
      social_accounts =
        [\<lparr>sa_id = ''a1'', sa_store_id = ''s-alice'', sa_platform = ''instagram'',
          sa_page_url = ''https://example.org/alice'', sa_page_id = None\<rparr>],
      product_reviews =
        [\<lparr>rv_id = ''r1'', rv_seller_id = ''alice'', rv_product_id = ''p1'', rv_rating = 5,
          rv_status = ''pending'', rv_is_published = False, rv_published_at = None,
          rv_moderation_status = ''pending'', rv_created_at = ''2024-06-03T08:00:00.000Z'',
          rv_updated_at = ''2024-06-03T08:00:00.000Z''\<rparr>],
      review_questions =
        [\<lparr>rq_id = ''q1'', rq_product_id = ''p1'', rq_is_answered = False,
          rq_created_at = ''2024-06-04T08:00:00.000Z''\<rparr>],
      review_answers = [],
      transactions =
        [\<lparr>tx_seller_id = ''alice'', tx_created_at = ''2024-06-15T09:00:00.000Z'',
          tx_status = Some ''completed'', tx_amount = Some 100, tx_seller_payout = Some 90,
          tx_platform_fee = Some 10\<rparr>],
      seller_expenses =
        [\<lparr>ex_id = ''e1'', ex_seller_id = ''alice'', ex_amount = Some 12, ex_category = Some ''shipping'',
          ex_expense_date = ''2024-06-15'', ex_status = ''active'',
          ex_updated_at = ''2024-06-15T09:30:00.000Z''\<rparr>]\<rparr>"

text \<open>The example store without its expense: one completed sale and no expenses.\<close>

definition sale_db :: db where
  "sale_db = example_db\<lparr>seller_expenses := []\<rparr>"

text \<open>
  The example store after the second seller has set the slug of their store to that of
  the first seller (\<^verbatim>\<open>PUT /\<close> writes a slug without looking for it).
\<close>

definition duplicate_slug_db :: db where
  "duplicate_slug_db =
     example_db\<lparr>stores :=
       map (\<lambda>s. if st_seller_id s = ''bob'' then s\<lparr>st_slug := ''alice-shop''\<rparr> else s)
         (stores example_db)\<rparr>"

definition example_request :: "string \<Rightarrow> string \<Rightarrow> (string \<times> string) list \<Rightarrow> string option \<Rightarrow> request" where
  "example_request method pathname search auth =
     \<lparr>req_method = method, req_pathname = pathname, req_search = search,
      req_authorization = auth, req_json = None\<rparr>"

definition empty_payload :: payload where
  "empty_payload =
     \<lparr>p_name = Undefined, p_slug = Undefined, p_bio = Undefined, p_logo = Undefined,
      p_description = Undefined, p_price = Undefined, p_images = Undefined, p_status = Undefined,
      p_answer = Undefined, p_review_ids = Undefined\<rparr>"

section \<open>Properties\<close>

subsection \<open>Auxiliary facts about lists\<close>

lemma filter_key_none: "k \<notin> f ` set xs \<Longrightarrow> [y \<leftarrow> xs. f y = k] = []"
  by (induction xs) auto

lemma filter_key_single:
  "distinct (map f xs) \<Longrightarrow> x \<in> set xs \<Longrightarrow> [y \<leftarrow> xs. f y = f x] = [x]"
proof (induction xs)
  case Nil
  then show ?case by simp
next
  case (Cons a xs)
  show ?case
  proof (cases "a = x")
    case True
    with Cons.prems have "f x \<notin> f ` set xs" by simp
    then have "[y \<leftarrow> xs. f y = f x] = []" by (rule filter_key_none)
    with True show ?thesis by simp
  next
    case False
    with Cons.prems have mem: "x \<in> set xs" by simp
    with Cons.prems have "f a \<noteq> f x" by force
    with Cons mem show ?thesis by simp
  qed
qed

lemma foldl_plus_sum: "foldl (\<lambda>s t. s + f t) a xs = a + sum_list (map f xs)" for a :: rat
  by (induction xs arbitrary: a) (simp_all add: add.assoc)

lemma reduce_sum_sum_list: "reduce_sum f xs = sum_list (map f xs)"
  by (simp add: reduce_sum_def foldl_plus_sum)

lemma single_Some: "single xs = Some x \<Longrightarrow> xs = [x]"
  by (cases xs rule: single.cases) auto

lemma maybeSingle_Some: "maybeSingle xs = Some x \<Longrightarrow> xs = [x]"
  by (cases xs rule: maybeSingle.cases) auto

lemma filter_singleton_mem:
  assumes "filter P xs = [x]"
  shows "x \<in> set xs \<and> P x"
proof -
  from assms have "x \<in> set (filter P xs)" by simp
  then show ?thesis by simp
qed

lemma outcome_at_ok: "outcome_at (ok j) ks = at_path j ks"
  by (simp add: outcome_at_def ok_def json_response_def)

lemma outcome_status_ok: "outcome_status (ok j) = Some 200"
  by (simp add: outcome_status_def ok_def json_response_def)

lemma fst_case_option: "fst (case x of None \<Rightarrow> (a, d) | Some r \<Rightarrow> (f r, d)) = (case x of None \<Rightarrow> a | Some r \<Rightarrow> f r)"
  by (cases x) simp_all

subsection \<open>Authentication\<close>

text \<open>
  C6, as amended. A request whose method is not \<^verbatim>\<open>OPTIONS\<close> and that carries no valid
  bearer token (no \<^verbatim>\<open>Authorization\<close> header, a header that does not start with
  \<^verbatim>\<open>Bearer \<close>, or a token the identity provider rejects) is answered 401 with
  \<^verbatim>\<open>success: false\<close>, whatever its method and path; no route handler runs, so the
  store is left as it was.
\<close>

theorem unauthenticated_is_401:
  assumes "req_method req \<noteq> ''OPTIONS''"
    and "req_authorization req = None
         \<or> (\<exists>h. req_authorization req = Some h \<and> \<not> startsWith h ''Bearer '')
         \<or> (\<exists>h. req_authorization req = Some h \<and> getUser e (drop (length ''Bearer '') h) = None)"
  shows "serve e req d = (json_response 401 (failure ''Unauthorized''), d)
       \<and> status (fst (serve e req d)) = 401
       \<and> response_at (fst (serve e req d)) [''success''] = Some (JBool False)
       \<and> snd (serve e req d) = d"
proof -
  from assms(2) have "authenticate e req = None"
    by (auto simp: authenticate_def)
  with assms(1) have "serve e req d = (json_response 401 (failure ''Unauthorized''), d)"
    by (simp add: serve_def)
  then show ?thesis
    by (simp add: json_response_def failure_def response_at_def)
qed

text \<open>
  The theorem at a \<^verbatim>\<open>DELETE /products/p1\<close> request that carries a \<^verbatim>\<open>Basic\<close>
  header.
\<close>

theorem unauthenticated_is_401_witness:
  "req_method (example_request ''DELETE'' ''/store-api/products/p1'' [] (Some ''Basic abc'')) \<noteq> ''OPTIONS''
   \<and> \<not> startsWith ''Basic abc'' ''Bearer ''
   \<and> serve example_env (example_request ''DELETE'' ''/store-api/products/p1'' [] (Some ''Basic abc'')) example_db
       = (json_response 401 (failure ''Unauthorized''), example_db)"
  using unauthenticated_is_401 [of "example_request ''DELETE'' ''/store-api/products/p1'' [] (Some ''Basic abc'')"
      example_env example_db]
  by (simp add: example_request_def startsWith_def)

text \<open>
  C6 as stated fails for the preflight: an \<^verbatim>\<open>OPTIONS\<close> request without any
  \<^verbatim>\<open>Authorization\<close> header is answered 200 with an empty body, before the token is
  looked at.
\<close>

theorem options_without_token_counterexample:
  "req_authorization (example_request ''OPTIONS'' ''/store-api/products'' [] None) = None
   \<and> status (fst (serve example_env (example_request ''OPTIONS'' ''/store-api/products'' [] None) example_db)) = 200
   \<and> body (fst (serve example_env (example_request ''OPTIONS'' ''/store-api/products'' [] None) example_db)) = None"
  by (simp add: serve_def example_request_def)

text \<open>Every \<^verbatim>\<open>OPTIONS\<close> request is answered so, with the store unchanged.\<close>

lemma options_preflight_is_200:
  "req_method req = ''OPTIONS'' \<Longrightarrow>
   serve e req d = (\<lparr>status = 200, headers = corsHeaders, body = None\<rparr>, d)"
  by (simp add: serve_def)

subsection \<open>Callers without a store\<close>

text \<open>
  C10. For an authenticated caller who has no store, \<^verbatim>\<open>GET /products\<close>,
  \<^verbatim>\<open>GET /social\<close> and \<^verbatim>\<open>GET /reviews/questions\<close> answer 200 with
  \<^verbatim>\<open>{success: true, data: []}\<close>, and leave the store as it was.
\<close>

theorem lists_without_store_are_empty:
  assumes "authenticate e req = Some userId"
    and "req_method req = ''GET''"
    and "norm_path (req_pathname req) \<in> {''/products'', ''/social'', ''/reviews/questions''}"
    and "\<forall>s \<in> set (stores d). st_seller_id s \<noteq> userId"
  shows "status (fst (serve e req d)) = 200
       \<and> body (fst (serve e req d)) = Some (JObj [(''success'', JBool True), (''data'', JArr [])])
       \<and> snd (serve e req d) = d"
proof -
  from assms(4) have none: "[s \<leftarrow> stores d. st_seller_id s = userId] = []"
    by (simp add: filter_empty_conv)
  have "route e userId req d = (ok (success (JArr [])), d)"
    using assms(2,3) none
    by (auto simp: route_def Let_def startsWith_def get_products_def get_social_def
        get_reviews_questions_def)
  with assms(1,2) show ?thesis
    by (simp add: serve_def ok_def json_response_def success_def)
qed

text \<open>The theorem at \<^verbatim>\<open>GET /social\<close> for a caller who has no store.\<close>

theorem lists_without_store_are_empty_witness:
  "authenticate example_env (example_request ''GET'' ''/functions/v1/store-api/social'' [] (Some ''Bearer token-carol'')) = Some ''carol''
   \<and> ''carol'' \<notin> st_seller_id ` set (stores example_db)
   \<and> status (fst (serve example_env (example_request ''GET'' ''/functions/v1/store-api/social'' [] (Some ''Bearer token-carol'')) example_db)) = 200
   \<and> body (fst (serve example_env (example_request ''GET'' ''/functions/v1/store-api/social'' [] (Some ''Bearer token-carol'')) example_db))
       = Some (JObj [(''success'', JBool True), (''data'', JArr [])])"
  using lists_without_store_are_empty [of example_env
      "example_request ''GET'' ''/functions/v1/store-api/social'' [] (Some ''Bearer token-carol'')" "''carol''" example_db]
  by (simp add: example_request_def example_env_def example_db_def authenticate_def startsWith_def
      norm_path_def Let_def)

subsection \<open>Creating a store\<close>

text \<open>
  C3 at a failing input. Two stores carry the slug \<^verbatim>\<open>alice-shop\<close>. A caller who
  has no store posts a name and that slug. The lookup
  \<^verbatim>\<open>.eq("slug", slug).maybeSingle()\<close> finds two rows, so its data is null and its
  error is dropped: the handler inserts a third store with the slug and answers 201,
  where the check named \<^verbatim>\<open>Check if slug is taken\<close> was to answer 400.
\<close>

theorem duplicate_slug_store_example:
  "map st_seller_id (stores duplicate_slug_db) = [''alice'', ''bob'']
   \<and> map st_slug (stores duplicate_slug_db) = [''alice-shop'', ''alice-shop'']
   \<and> authenticate example_env
        ((example_request ''POST'' ''/store-api'' [] (Some ''Bearer token-carol''))
           \<lparr>req_json := Some (empty_payload\<lparr>p_name := Value ''Carol shop'', p_slug := Value ''alice-shop''\<rparr>)\<rparr>)
       = Some ''carol''
   \<and> status (fst (serve example_env
        ((example_request ''POST'' ''/store-api'' [] (Some ''Bearer token-carol''))
           \<lparr>req_json := Some (empty_payload\<lparr>p_name := Value ''Carol shop'', p_slug := Value ''alice-shop''\<rparr>)\<rparr>)
        duplicate_slug_db)) = 201
   \<and> map st_seller_id (stores (snd (serve example_env
        ((example_request ''POST'' ''/store-api'' [] (Some ''Bearer token-carol''))
           \<lparr>req_json := Some (empty_payload\<lparr>p_name := Value ''Carol shop'', p_slug := Value ''alice-shop''\<rparr>)\<rparr>)
        duplicate_slug_db))) = [''alice'', ''bob'', ''carol'']
   \<and> map st_slug (stores (snd (serve example_env
        ((example_request ''POST'' ''/store-api'' [] (Some ''Bearer token-carol''))
           \<lparr>req_json := Some (empty_payload\<lparr>p_name := Value ''Carol shop'', p_slug := Value ''alice-shop''\<rparr>)\<rparr>)
        duplicate_slug_db))) = [''alice-shop'', ''alice-shop'', ''alice-shop'']"
  by (simp add: serve_def route_def authenticate_def startsWith_def norm_path_def Let_def
      example_request_def example_env_def example_db_def duplicate_slug_db_def empty_payload_def
      post_store_def json_response_def)

text \<open>
  Where the table has one row per seller and per slug, the two lookups do find the
  conflicts: the caller who has a store is answered 400
  \<^verbatim>\<open>User already has a store\<close>, the caller who asks for a slug in use is answered
  400 \<^verbatim>\<open>Slug already taken\<close>, and any 400 leaves the tables unchanged.
\<close>

lemma create_store_conflicts:
  assumes "stores_wf d" and "req_json req = Some b" and "truthy (p_name b)" and "truthy (p_slug b)"
  shows "((\<exists>s \<in> set (stores d). st_seller_id s = userId) \<longrightarrow>
           post_store e userId req d = (fail 400 ''User already has a store'', d))
       \<and> ((\<forall>s \<in> set (stores d). st_seller_id s \<noteq> userId)
            \<and> (\<exists>s \<in> set (stores d). st_slug s = text_of (p_slug b)) \<longrightarrow>
           post_store e userId req d = (fail 400 ''Slug already taken'', d))
       \<and> (outcome_status (fst (post_store e userId req d)) = Some 400 \<longrightarrow>
           snd (post_store e userId req d) = d)"
proof (intro conjI impI)
  assume "\<exists>s \<in> set (stores d). st_seller_id s = userId"
  then obtain s where s: "s \<in> set (stores d)" "st_seller_id s = userId" by blast
  from assms(1) have "distinct (map st_seller_id (stores d))" by (simp add: stores_wf_def)
  from filter_key_single [OF this s(1)] s(2)
  have "[x \<leftarrow> stores d. st_seller_id x = userId] = [s]" by simp
  with assms(2-4) show "post_store e userId req d = (fail 400 ''User already has a store'', d)"
    by (simp add: post_store_def)
next
  assume h: "(\<forall>s \<in> set (stores d). st_seller_id s \<noteq> userId)
     \<and> (\<exists>s \<in> set (stores d). st_slug s = text_of (p_slug b))"
  then have none: "[x \<leftarrow> stores d. st_seller_id x = userId] = []"
    by (simp add: filter_empty_conv)
  from h obtain s where s: "s \<in> set (stores d)" "st_slug s = text_of (p_slug b)" by blast
  from assms(1) have "distinct (map st_slug (stores d))" by (simp add: stores_wf_def)
  from filter_key_single [OF this s(1)] s(2)
  have "[x \<leftarrow> stores d. st_slug x = text_of (p_slug b)] = [s]" by simp
  with none assms(2-4) show "post_store e userId req d = (fail 400 ''Slug already taken'', d)"
    by (simp add: post_store_def)
next
  assume "outcome_status (fst (post_store e userId req d)) = Some 400"
  with assms(2) show "snd (post_store e userId req d) = d"
    by (auto simp: post_store_def Let_def outcome_status_def json_response_def fail_def
        split: if_splits)
qed

text \<open>
  In the example store: the first seller asks for a second store, and a caller without a
  store asks for the slug of the second seller.
\<close>

lemma create_store_conflicts_example:
  "stores_wf example_db
   \<and> (\<exists>s \<in> set (stores example_db). st_seller_id s = ''alice'')
   \<and> post_store example_env ''alice''
        ((example_request ''POST'' ''/store-api'' [] (Some ''Bearer token-alice''))
           \<lparr>req_json := Some (empty_payload\<lparr>p_name := Value ''Second shop'', p_slug := Value ''second-shop''\<rparr>)\<rparr>)
        example_db
      = (fail 400 ''User already has a store'', example_db)
   \<and> ''carol'' \<notin> st_seller_id ` set (stores example_db)
   \<and> (\<exists>s \<in> set (stores example_db). st_slug s = ''bob-shop'')
   \<and> post_store example_env ''carol''
        ((example_request ''POST'' ''/store-api'' [] (Some ''Bearer token-carol''))
           \<lparr>req_json := Some (empty_payload\<lparr>p_name := Value ''Carol shop'', p_slug := Value ''bob-shop''\<rparr>)\<rparr>)
        example_db
      = (fail 400 ''Slug already taken'', example_db)"
  using create_store_conflicts [of example_db
      "(example_request ''POST'' ''/store-api'' [] (Some ''Bearer token-alice''))
           \<lparr>req_json := Some (empty_payload\<lparr>p_name := Value ''Second shop'', p_slug := Value ''second-shop''\<rparr>)\<rparr>"
      "empty_payload\<lparr>p_name := Value ''Second shop'', p_slug := Value ''second-shop''\<rparr>"
      "''alice''" example_env]
    create_store_conflicts [of example_db
      "(example_request ''POST'' ''/store-api'' [] (Some ''Bearer token-carol''))
           \<lparr>req_json := Some (empty_payload\<lparr>p_name := Value ''Carol shop'', p_slug := Value ''bob-shop''\<rparr>)\<rparr>"
      "empty_payload\<lparr>p_name := Value ''Carol shop'', p_slug := Value ''bob-shop''\<rparr>"
      "''carol''" example_env]
  by (simp add: stores_wf_def example_db_def example_request_def empty_payload_def)

text \<open>
  The handler keeps that shape of the table; \<^verbatim>\<open>PUT /\<close>, which writes a slug without
  looking for it, is what can break it.
\<close>

lemma post_store_preserves_wf:
  assumes "stores_wf d"
  shows "stores_wf (snd (post_store e userId req d))"
proof (cases "req_json req")
  case None
  with assms show ?thesis by (simp add: post_store_def)
next
  case (Some b)
  have a: "maybeSingle [s \<leftarrow> stores d. st_seller_id s = userId] = None \<Longrightarrow> userId \<notin> st_seller_id ` set (stores d)"
  proof
    assume n: "maybeSingle [s \<leftarrow> stores d. st_seller_id s = userId] = None"
      and "userId \<in> st_seller_id ` set (stores d)"
    then obtain s where s: "s \<in> set (stores d)" "st_seller_id s = userId" by auto
    from assms have "distinct (map st_seller_id (stores d))" by (simp add: stores_wf_def)
    from filter_key_single [OF this s(1)] s(2) n show False by simp
  qed
  have b: "maybeSingle [s \<leftarrow> stores d. st_slug s = k] = None \<Longrightarrow> k \<notin> st_slug ` set (stores d)" for k
  proof
    assume n: "maybeSingle [s \<leftarrow> stores d. st_slug s = k] = None"
      and "k \<in> st_slug ` set (stores d)"
    then obtain s where s: "s \<in> set (stores d)" "st_slug s = k" by auto
    from assms have "distinct (map st_slug (stores d))" by (simp add: stores_wf_def)
    from filter_key_single [OF this s(1)] s(2) n show False by simp
  qed
  from Some assms a b show ?thesis
    by (auto simp: post_store_def Let_def stores_wf_def)
qed

subsection \<open>Answering a question\<close>

text \<open>
  C9. For a \<^verbatim>\<open>POST /questions/:id/answer\<close> with an answer of at least five
  characters on an existing question (identifiers being keys of their tables): when the
  caller is not the seller of the store that owns the question's product, the response
  is 403 and nothing is inserted; when the caller is that seller, an official answer is
  appended and the question is flagged as answered.
\<close>

theorem answer_requires_owning_seller:
  assumes "keys_wf d"
    and "req_json req = Some b" and "p_answer b = Value a" and "5 \<le> length a"
    and "q \<in> set (review_questions d)" and "rq_id q = segment path 2"
  shows "(\<not> (\<exists>p \<in> set (products d). \<exists>s \<in> set (stores d).
              pr_id p = rq_product_id q \<and> st_id s = pr_store_id p \<and> st_seller_id s = userId) \<longrightarrow>
           post_question_answer e userId path req d = (fail 403 ''Unauthorized'', d))
       \<and> ((\<exists>p \<in> set (products d). \<exists>s \<in> set (stores d).
              pr_id p = rq_product_id q \<and> st_id s = pr_store_id p \<and> st_seller_id s = userId) \<longrightarrow>
           (\<exists>row. fst (post_question_answer e userId path req d) = ok (success (answer_json row))
              \<and> ra_question_id row = rq_id q \<and> ra_answerer_id row = userId \<and> ra_is_official row
              \<and> review_answers (snd (post_question_answer e userId path req d)) = review_answers d @ [row]
              \<and> map rq_id (review_questions (snd (post_question_answer e userId path req d)))
                  = map rq_id (review_questions d)
              \<and> (\<forall>q' \<in> set (review_questions (snd (post_question_answer e userId path req d))).
                    rq_id q' = rq_id q \<longrightarrow> rq_is_answered q')))"
proof -
  from assms(1) have dq: "distinct (map rq_id (review_questions d))"
    and dp: "distinct (map pr_id (products d))" and ds: "distinct (map st_id (stores d))"
    by (simp_all add: keys_wf_def)
  from filter_key_single [OF dq assms(5)] assms(6)
  have fq: "[x \<leftarrow> review_questions d. rq_id x = segment path 2] = [q]" by simp
  have valid: "truthy (p_answer b) \<and> \<not> length (text_of (p_answer b)) < 5"
    using assms(3,4) by auto
  show ?thesis
  proof (intro conjI impI)
    assume no: "\<not> (\<exists>p \<in> set (products d). \<exists>s \<in> set (stores d).
              pr_id p = rq_product_id q \<and> st_id s = pr_store_id p \<and> st_seller_id s = userId)"
    show "post_question_answer e userId path req d = (fail 403 ''Unauthorized'', d)"
    proof (cases "single [p \<leftarrow> products d. pr_id p = rq_product_id q]")
      case None
      with fq valid assms(2) show ?thesis
        by (simp add: post_question_answer_def Let_def)
    next
      case (Some p)
      from single_Some [OF Some] have p: "p \<in> set (products d)" "pr_id p = rq_product_id q"
        using filter_singleton_mem by fastforce+
      show ?thesis
      proof (cases "single [s \<leftarrow> stores d. st_id s = pr_store_id p]")
        case None
        with Some fq valid assms(2) show ?thesis
          by (simp add: post_question_answer_def Let_def)
      next
        case (Some s)
        from single_Some [OF Some] have s: "s \<in> set (stores d)" "st_id s = pr_store_id p"
          using filter_singleton_mem by fastforce+
        with no p have "st_seller_id s \<noteq> userId" by blast
        with Some \<open>single [p \<leftarrow> products d. pr_id p = rq_product_id q] = Some p\<close> fq valid assms(2)
        show ?thesis
          by (simp add: post_question_answer_def Let_def)
      qed
    qed
  next
    assume "\<exists>p \<in> set (products d). \<exists>s \<in> set (stores d).
              pr_id p = rq_product_id q \<and> st_id s = pr_store_id p \<and> st_seller_id s = userId"
    then obtain p s where p: "p \<in> set (products d)" "pr_id p = rq_product_id q"
      and s: "s \<in> set (stores d)" "st_id s = pr_store_id p" "st_seller_id s = userId" by blast
    from filter_key_single [OF dp p(1)] p(2)
    have fp: "[x \<leftarrow> products d. pr_id x = rq_product_id q] = [p]" by simp
    from filter_key_single [OF ds s(1)] s(2)
    have fs: "[x \<leftarrow> stores d. st_id x = pr_store_id p] = [s]" by simp
    let ?row = "\<lparr>ra_id = new_id e, ra_question_id = segment path 2, ra_answerer_id = userId,
                 ra_answerer_type = ''seller'', ra_answer = take 2000 (text_of (p_answer b)),
                 ra_is_official = True\<rparr>"
    have eq: "post_question_answer e userId path req d =
       (ok (success (answer_json ?row)),
        d\<lparr>review_answers := review_answers d @ [?row],
          review_questions := map (\<lambda>q. if rq_id q = segment path 2 then q\<lparr>rq_is_answered := True\<rparr> else q)
              (review_questions d)\<rparr>)"
      using fq fp fs valid assms(2) s(3)
      by (simp add: post_question_answer_def Let_def)
    have ids: "map rq_id (map (\<lambda>q. if rq_id q = segment path 2 then q\<lparr>rq_is_answered := True\<rparr> else q)
              (review_questions d)) = map rq_id (review_questions d)"
      by (induction "review_questions d") (auto simp: o_def)
    show "\<exists>row. fst (post_question_answer e userId path req d) = ok (success (answer_json row))
              \<and> ra_question_id row = rq_id q \<and> ra_answerer_id row = userId \<and> ra_is_official row
              \<and> review_answers (snd (post_question_answer e userId path req d)) = review_answers d @ [row]
              \<and> map rq_id (review_questions (snd (post_question_answer e userId path req d)))
                  = map rq_id (review_questions d)
              \<and> (\<forall>q' \<in> set (review_questions (snd (post_question_answer e userId path req d))).
                    rq_id q' = rq_id q \<longrightarrow> rq_is_answered q')"
      apply (rule exI [of _ ?row])
      using ids assms(6) by (auto simp: eq)
  qed
qed

text \<open>
  The theorem in the example store, for the question on the first seller's product: the
  second seller is refused, the first seller's answer is stored.
\<close>

theorem answer_requires_owning_seller_witness:
  "keys_wf example_db
   \<and> post_question_answer example_env ''bob'' ''/questions/q1/answer''
        ((example_request ''POST'' ''/store-api/questions/q1/answer'' [] None)
           \<lparr>req_json := Some (empty_payload\<lparr>p_answer := Value ''It is 30 cm tall''\<rparr>)\<rparr>)
        example_db
      = (fail 403 ''Unauthorized'', example_db)
   \<and> (\<exists>row. fst (post_question_answer example_env ''alice'' ''/questions/q1/answer''
          ((example_request ''POST'' ''/store-api/questions/q1/answer'' [] None)
             \<lparr>req_json := Some (empty_payload\<lparr>p_answer := Value ''It is 30 cm tall''\<rparr>)\<rparr>)
          example_db) = ok (success (answer_json row)) \<and> ra_is_official row)"
proof -
  let ?b = "empty_payload\<lparr>p_answer := Value ''It is 30 cm tall''\<rparr>"
  let ?req = "(example_request ''POST'' ''/store-api/questions/q1/answer'' [] None)\<lparr>req_json := Some ?b\<rparr>"
  let ?q = "hd (review_questions example_db)"
  have k: "keys_wf example_db" by (simp add: keys_wf_def example_db_def)
  have r: "req_json ?req = Some ?b" by (simp add: example_request_def)
  have a: "p_answer ?b = Value ''It is 30 cm tall''" by (simp add: empty_payload_def)
  have l: "5 \<le> length ''It is 30 cm tall''" by simp
  have q: "?q \<in> set (review_questions example_db)" by (simp add: example_db_def)
  have i: "rq_id ?q = segment ''/questions/q1/answer'' 2" by (simp add: example_db_def segment_def)
  note t = answer_requires_owning_seller [OF k r a l q i]
  have bob: "\<not> (\<exists>p \<in> set (products example_db). \<exists>s \<in> set (stores example_db).
      pr_id p = rq_product_id ?q \<and> st_id s = pr_store_id p \<and> st_seller_id s = ''bob'')"
    by (simp add: example_db_def)
  have alice: "\<exists>p \<in> set (products example_db). \<exists>s \<in> set (stores example_db).
      pr_id p = rq_product_id ?q \<and> st_id s = pr_store_id p \<and> st_seller_id s = ''alice''"
    by (simp add: example_db_def)
  from t [of "''bob''" example_env] bob
  have 1: "post_question_answer example_env ''bob'' ''/questions/q1/answer'' ?req example_db
      = (fail 403 ''Unauthorized'', example_db)" by blast
  from t [of "''alice''" example_env] alice
  have 2: "\<exists>row. fst (post_question_answer example_env ''alice'' ''/questions/q1/answer'' ?req example_db)
      = ok (success (answer_json row)) \<and> ra_is_official row" by blast
  from k 1 2 show ?thesis by blast
qed

subsection \<open>Owner scoping\<close>

text \<open>
  C1 at a failing input. In the example store the product \<open>p1\<close> and the social account
  \<open>a1\<close> belong to the store of the first seller. The second seller, authenticated
  under their own token, deletes the product, renames it, and deletes the social account: the three
  handlers filter on \<^verbatim>\<open>id\<close> alone, where \<^verbatim>\<open>GET /products\<close> and
  \<^verbatim>\<open>GET /social\<close> first resolve the caller's own store.
\<close>

theorem foreign_product_mutation_example:
  "authenticate example_env (example_request ''DELETE'' ''/store-api/products/p1'' [] (Some ''Bearer token-bob'')) = Some ''bob''
   \<and> [p \<leftarrow> products example_db. pr_id p = ''p1''] = [hd (products example_db)]
   \<and> pr_store_id (hd (products example_db)) = ''s-alice''
   \<and> [s \<leftarrow> stores example_db. st_id s = ''s-alice''] = [hd (stores example_db)]
   \<and> st_seller_id (hd (stores example_db)) = ''alice''
   \<and> status (fst (serve example_env (example_request ''DELETE'' ''/store-api/products/p1'' [] (Some ''Bearer token-bob'')) example_db)) = 200
   \<and> [p \<leftarrow> products (snd (serve example_env (example_request ''DELETE'' ''/store-api/products/p1'' [] (Some ''Bearer token-bob'')) example_db)). pr_id p = ''p1''] = []
   \<and> status (fst (serve example_env ((example_request ''PUT'' ''/store-api/products/p1'' [] (Some ''Bearer token-bob''))\<lparr>req_json := Some (empty_payload\<lparr>p_name := Value ''Taken over''\<rparr>)\<rparr>) example_db)) = 200
   \<and> map pr_name [p \<leftarrow> products (snd (serve example_env ((example_request ''PUT'' ''/store-api/products/p1'' [] (Some ''Bearer token-bob''))\<lparr>req_json := Some (empty_payload\<lparr>p_name := Value ''Taken over''\<rparr>)\<rparr>) example_db)). pr_id p = ''p1''] = [''Taken over'']
   \<and> map sa_store_id (social_accounts example_db) = [''s-alice'']
   \<and> status (fst (serve example_env (example_request ''DELETE'' ''/store-api/social/a1'' [] (Some ''Bearer token-bob'')) example_db)) = 200
   \<and> social_accounts (snd (serve example_env (example_request ''DELETE'' ''/store-api/social/a1'' [] (Some ''Bearer token-bob'')) example_db)) = []"
  by (simp add: serve_def route_def authenticate_def startsWith_def norm_path_def Let_def
      example_request_def example_env_def example_db_def empty_payload_def
      delete_product_def put_product_def update_product_def delete_social_def ok_def json_response_def)

subsection \<open>Bulk moderation\<close>

text \<open>
  C2 at a failing input. The second seller submits the id of a review of the first
  seller: the review is left as it was, yet the response reports \<^verbatim>\<open>updated: 1\<close>,
  the length of the submitted array.
\<close>

theorem bulk_update_count_example:
  "rv_seller_id (hd (product_reviews example_db)) = ''alice''
   \<and> rv_id (hd (product_reviews example_db)) = ''r1''
   \<and> post_reviews_bulk_update example_env ''bob''
       ((example_request ''POST'' ''/store-api/reviews/bulk-update'' [] (Some ''Bearer token-bob''))
          \<lparr>req_json := Some (empty_payload\<lparr>p_review_ids := Value [''r1''], p_status := Value ''approved''\<rparr>)\<rparr>)
       example_db
     = (ok (JObj [(''success'', JBool True), (''updated'', JNum 1)]), example_db)"
  by (simp add: post_reviews_bulk_update_def example_request_def example_db_def empty_payload_def)

text \<open>The rows of other sellers are never touched by the bulk update.\<close>

lemma bulk_update_keeps_foreign_rows:
  "[r \<leftarrow> product_reviews (snd (post_reviews_bulk_update e userId req d)). rv_seller_id r \<noteq> userId]
     = [r \<leftarrow> product_reviews d. rv_seller_id r \<noteq> userId]"
proof -
  have "[r \<leftarrow> map (\<lambda>r. if rv_seller_id r = userId \<and> rv_id r \<in> S then moderate e st r else r) rs.
          rv_seller_id r \<noteq> userId] = [r \<leftarrow> rs. rv_seller_id r \<noteq> userId]" for S st rs
    by (induction rs) (auto simp: moderate_def)
  then show ?thesis
    by (auto simp: post_reviews_bulk_update_def split: option.splits field.splits)
qed

text \<open>The reported count is always the length of the submitted array.\<close>

lemma bulk_update_reports_request_length:
  assumes "req_json req = Some b" and "p_review_ids b = Value ids" and "p_status b = Value st"
    and "st = ''approved'' \<or> st = ''rejected''"
  shows "fst (post_reviews_bulk_update e userId req d)
     = ok (JObj [(''success'', JBool True), (''updated'', JNum (of_nat (length ids)))])"
  using assms by (auto simp: post_reviews_bulk_update_def)

subsection \<open>The financial dashboard\<close>

text \<open>
  The handler's test of a status agrees with the reading of the specification, and its
  period is the one named by the \<^verbatim>\<open>period\<close> parameter.
\<close>

lemma lower_char_letter:
  assumes "CHR ''a'' \<le> c" and "c \<le> CHR ''z''"
  shows "(lower_char a = c) = (a = c \<or> (of_char a :: nat) + 32 = of_char c)"
proof -
  from assms have m: "97 \<le> (of_char c :: nat)" "(of_char c :: nat) \<le> 122"
    by (simp_all add: less_eq_char_def)
  have n: "(of_char a :: nat) < 256" by simp
  show ?thesis
  proof (cases "CHR ''A'' \<le> a \<and> a \<le> CHR ''Z''")
    case True
    then have r: "65 \<le> (of_char a :: nat)" "(of_char a :: nat) \<le> 90"
      by (simp_all add: less_eq_char_def)
    then have "a \<noteq> c" using m by auto
    moreover have "(char_of (of_char a + (32::nat)) = c) = ((of_char a :: nat) + 32 = of_char c)"
      using r by (simp add: char_of_eq_iff take_bit_nat_eq_self)
    ultimately show ?thesis using True by (simp add: lower_char_def)
  next
    case False
    then have "\<not> (65 \<le> (of_char a :: nat) \<and> (of_char a :: nat) \<le> 90)"
      by (simp add: less_eq_char_def)
    with m have "(of_char a :: nat) + 32 \<noteq> of_char c" by arith
    moreover from False have "lower_char a = a" unfolding lower_char_def by (rule if_not_P)
    ultimately show ?thesis by simp
  qed
qed

lemma toLowerCase_letters:
  "list_all (\<lambda>c. CHR ''a'' \<le> c \<and> c \<le> CHR ''z'') st \<Longrightarrow>
   (toLowerCase s = st) = list_all2 (\<lambda>a c. a = c \<or> (of_char a :: nat) + 32 = of_char c) s st"
proof (induction s arbitrary: st)
  case Nil
  then show ?case by (auto simp: toLowerCase_def)
next
  case (Cons a s)
  show ?case
  proof (cases st)
    case Nil
    then show ?thesis by (simp add: toLowerCase_def)
  next
    case (Cons c st')
    with Cons.prems have c: "CHR ''a'' \<le> c" "c \<le> CHR ''z''"
      and r: "list_all (\<lambda>c. CHR ''a'' \<le> c \<and> c \<le> CHR ''z'') st'" by simp_all
    from Cons.IH [OF r] lower_char_letter [OF c] Cons show ?thesis
      by (simp add: toLowerCase_def)
  qed
qed

lemma has_status_ignoring_case:
  assumes "st \<noteq> []" and "list_all (\<lambda>c. CHR ''a'' \<le> c \<and> c \<le> CHR ''z'') st"
  shows "has_status st t = status_ignoring_case st (tx_status t)"
proof (cases "tx_status t")
  case None
  with assms(1) show ?thesis
    by (auto simp: has_status_def status_ignoring_case_def toLowerCase_def)
next
  case (Some s)
  with toLowerCase_letters [OF assms(2)] show ?thesis
    by (simp add: has_status_def status_ignoring_case_def)
qed

lemma has_status_completed: "has_status ''completed'' = (\<lambda>t. status_ignoring_case ''completed'' (tx_status t))"
  by (rule ext, rule has_status_ignoring_case) simp_all

lemma has_status_refunded: "has_status ''refunded'' = (\<lambda>t. status_ignoring_case ''refunded'' (tx_status t))"
  by (rule ext, rule has_status_ignoring_case) simp_all

lemma dashboard_range_period:
  "dashboard_range e req =
     (let period = map_of (req_search req) ''period'';
          days = (if period = Some ''7d'' then 7 else if period = Some ''90d'' then 90
                  else if period = Some ''1y'' then 365 else (30::int))
      in (take 10 (toISOString e (now e - days * 86400000)), take 10 (toISOString e (now e))))"
proof (cases "map_of (req_search req) ''period''")
  case None
  then show ?thesis by (simp add: dashboard_range_def searchParams_get_def Let_def)
next
  case (Some s)
  then show ?thesis
    by (cases "s = []") (simp_all add: dashboard_range_def searchParams_get_def Let_def)
qed

text \<open>
  C4. \<^verbatim>\<open>GET /financial/dashboard\<close> answers 200 with a summary computed from the
  rows of the \<^verbatim>\<open>transactions\<close> table of the caller created in the period, and
  from the rows of the \<^verbatim>\<open>seller_expenses\<close> table of the caller that are active
  and dated in the period (the last 7, 30, 90 or 365 days): revenue is the sum of
  \<^verbatim>\<open>seller_payout\<close> (or else \<^verbatim>\<open>amount\<close>, or else 0) over the completed
  rows, refunds the sum of \<^verbatim>\<open>amount\<close> over the refunded rows, commission the sum of
  \<^verbatim>\<open>platform_fee\<close> over the completed rows, expenses the sum of the expense
  amounts, gross profit is revenue less refunds and net profit is gross profit less
  expenses (the status of a row is read without regard to letter case). In particular
  one completed row with amount 100, payout 90 and fee 10, and no expenses, give revenue
  90, commission 10 and net profit 90.
\<close>

theorem dashboard_summary_sums:
  "(let period = map_of (req_search req) ''period'';
        days = (if period = Some ''7d'' then 7 else if period = Some ''90d'' then 90
                else if period = Some ''1y'' then 365 else (30::int));
        startDate = take 10 (toISOString e (now e - days * 86400000));
        endDate = take 10 (toISOString e (now e));
        T = [t \<leftarrow> transactions d. tx_seller_id t = userId \<and> startDate \<le> tx_created_at t
               \<and> tx_created_at t \<le> endDate @ ''T23:59:59''];
        X = [x \<leftarrow> seller_expenses d. ex_seller_id x = userId \<and> ex_status x = ''active''
               \<and> startDate \<le> ex_expense_date x \<and> ex_expense_date x \<le> endDate];
        completed = [t \<leftarrow> T. status_ignoring_case ''completed'' (tx_status t)];
        refunded = [t \<leftarrow> T. status_ignoring_case ''refunded'' (tx_status t)];
        revenue = (\<Sum>t \<leftarrow> completed.
                     case tx_seller_payout t of Some p \<Rightarrow> p
                     | None \<Rightarrow> (case tx_amount t of Some a \<Rightarrow> a | None \<Rightarrow> 0));
        refunds = (\<Sum>t \<leftarrow> refunded. case tx_amount t of Some a \<Rightarrow> a | None \<Rightarrow> 0);
        commission = (\<Sum>t \<leftarrow> completed. case tx_platform_fee t of Some f \<Rightarrow> f | None \<Rightarrow> 0);
        expenses = (\<Sum>x \<leftarrow> X. case ex_amount x of Some a \<Rightarrow> a | None \<Rightarrow> 0);
        out = fst (get_financial_dashboard e userId req d)
    in outcome_status out = Some 200
     \<and> outcome_at out [''data'', ''summary'', ''revenue''] = Some (JNum revenue)
     \<and> outcome_at out [''data'', ''summary'', ''refunds''] = Some (JNum refunds)
     \<and> outcome_at out [''data'', ''summary'', ''commission''] = Some (JNum commission)
     \<and> outcome_at out [''data'', ''summary'', ''expenses''] = Some (JNum expenses)
     \<and> outcome_at out [''data'', ''summary'', ''gross_profit''] = Some (JNum (revenue - refunds))
     \<and> outcome_at out [''data'', ''summary'', ''net_profit''] = Some (JNum (revenue - refunds - expenses))
     \<and> snd (get_financial_dashboard e userId req d) = d
     \<and> ((\<exists>t. T = [t] \<and> tx_amount t = Some 100 \<and> tx_status t = Some ''completed''
               \<and> tx_seller_payout t = Some 90 \<and> tx_platform_fee t = Some 10) \<and> X = [] \<longrightarrow>
          outcome_at out [''data'', ''summary'', ''revenue''] = Some (JNum 90)
          \<and> outcome_at out [''data'', ''summary'', ''commission''] = Some (JNum 10)
          \<and> outcome_at out [''data'', ''summary'', ''net_profit''] = Some (JNum 90)))"
proof -
  define days :: int where "days = (if map_of (req_search req) ''period'' = Some ''7d'' then 7
      else if map_of (req_search req) ''period'' = Some ''90d'' then 90
      else if map_of (req_search req) ''period'' = Some ''1y'' then 365 else 30)"
  define startDate where "startDate = take 10 (toISOString e (now e - days * 86400000))"
  define endDate where "endDate = take 10 (toISOString e (now e))"
  define T where "T = [t \<leftarrow> transactions d. tx_seller_id t = userId \<and> startDate \<le> tx_created_at t
               \<and> tx_created_at t \<le> endDate @ ''T23:59:59'']"
  define X where "X = [x \<leftarrow> seller_expenses d. ex_seller_id x = userId \<and> ex_status x = ''active''
               \<and> startDate \<le> ex_expense_date x \<and> ex_expense_date x \<le> endDate]"
  define completed where "completed = [t \<leftarrow> T. status_ignoring_case ''completed'' (tx_status t)]"
  define refunded where "refunded = [t \<leftarrow> T. status_ignoring_case ''refunded'' (tx_status t)]"
  define revenue where "revenue = (\<Sum>t \<leftarrow> completed.
                     case tx_seller_payout t of Some p \<Rightarrow> p
                     | None \<Rightarrow> (case tx_amount t of Some a \<Rightarrow> a | None \<Rightarrow> 0))"
  define refunds where "refunds = (\<Sum>t \<leftarrow> refunded. case tx_amount t of Some a \<Rightarrow> a | None \<Rightarrow> 0)"
  define commission where
    "commission = (\<Sum>t \<leftarrow> completed. case tx_platform_fee t of Some f \<Rightarrow> f | None \<Rightarrow> 0)"
  define expenses where "expenses = (\<Sum>x \<leftarrow> X. case ex_amount x of Some a \<Rightarrow> a | None \<Rightarrow> 0)"
  let ?out = "fst (get_financial_dashboard e userId req d)"
  have r: "dashboard_range e req = (startDate, endDate)"
    by (simp add: dashboard_range_period Let_def days_def startDate_def endDate_def)
  have tq: "tx_query userId startDate endDate d = T"
    by (simp add: tx_query_def T_def)
  have xq: "expense_query userId startDate endDate d = X"
    by (simp add: expense_query_def X_def)
  have rev: "reduce_sum payout (filter (has_status ''completed'') T) = revenue"
    by (simp add: reduce_sum_sum_list has_status_completed revenue_def completed_def
        payout_def [abs_def])
  have ref: "reduce_sum amount_of (filter (has_status ''refunded'') T) = refunds"
    by (simp add: reduce_sum_sum_list has_status_refunded refunds_def refunded_def
        amount_of_def [abs_def])
  have com: "reduce_sum fee_of (filter (has_status ''completed'') T) = commission"
    by (simp add: reduce_sum_sum_list has_status_completed commission_def completed_def
        fee_of_def [abs_def])
  have exp: "reduce_sum expense_amount X = expenses"
    by (simp add: reduce_sum_sum_list expenses_def expense_amount_def [abs_def])
  have out: "get_financial_dashboard e userId req d =
     (ok (success (JObj
        [(''summary'', JObj
            [(''revenue'', JNum revenue), (''refunds'', JNum refunds),
             (''gross_profit'', JNum (revenue - refunds)), (''commission'', JNum commission),
             (''payment_fees'', JNum 0), (''expenses'', JNum expenses),
             (''net_revenue'', JNum (revenue - refunds)),
             (''net_profit'', JNum (revenue - refunds - expenses)),
             (''profit_margin'', JStr (if revenue > 0
                 then toFixed2 e (((revenue - refunds - expenses) / revenue) * 100) else ''0''))]),
         (''trend'', JArr []), (''breakdown'', JArr [])])), d)"
    unfolding get_financial_dashboard_def r split_conv Let_def tq xq rev ref com exp
    by (rule refl)
  have fields: "outcome_status ?out = Some 200"
    "outcome_at ?out [''data'', ''summary'', ''revenue''] = Some (JNum revenue)"
    "outcome_at ?out [''data'', ''summary'', ''refunds''] = Some (JNum refunds)"
    "outcome_at ?out [''data'', ''summary'', ''commission''] = Some (JNum commission)"
    "outcome_at ?out [''data'', ''summary'', ''expenses''] = Some (JNum expenses)"
    "outcome_at ?out [''data'', ''summary'', ''gross_profit''] = Some (JNum (revenue - refunds))"
    "outcome_at ?out [''data'', ''summary'', ''net_profit''] = Some (JNum (revenue - refunds - expenses))"
    "snd (get_financial_dashboard e userId req d) = d"
    by (simp_all add: out outcome_status_ok outcome_at_ok success_def)
  have example: "outcome_at ?out [''data'', ''summary'', ''revenue''] = Some (JNum 90)
          \<and> outcome_at ?out [''data'', ''summary'', ''commission''] = Some (JNum 10)
          \<and> outcome_at ?out [''data'', ''summary'', ''net_profit''] = Some (JNum 90)"
    if h: "(\<exists>t. T = [t] \<and> tx_amount t = Some 100 \<and> tx_status t = Some ''completed''
               \<and> tx_seller_payout t = Some 90 \<and> tx_platform_fee t = Some 10) \<and> X = []"
  proof -
    from h obtain t where t: "T = [t]" "tx_amount t = Some 100" "tx_status t = Some ''completed''"
      "tx_seller_payout t = Some 90" "tx_platform_fee t = Some 10" and x: "X = []" by blast
    have c: "status_ignoring_case ''completed'' (Some ''completed'')"
      "\<not> status_ignoring_case ''refunded'' (Some ''completed'')"
      by (simp_all add: status_ignoring_case_def)
    have "revenue = 90" "commission = 10" "refunds = 0" "expenses = 0"
      by (simp_all add: revenue_def commission_def refunds_def expenses_def completed_def
          refunded_def t x c)
    with fields show ?thesis by simp
  qed
  show ?thesis
    unfolding Let_def
    unfolding days_def [symmetric]
    unfolding startDate_def [symmetric] endDate_def [symmetric]
    unfolding T_def [symmetric] X_def [symmetric]
    unfolding completed_def [symmetric] refunded_def [symmetric]
    unfolding revenue_def [symmetric] refunds_def [symmetric] commission_def [symmetric]
      expenses_def [symmetric]
    using fields example by blast
qed

text \<open>The theorem for the first seller in the example store without expenses.\<close>

theorem dashboard_summary_sums_witness:
  "[t \<leftarrow> transactions sale_db. tx_seller_id t = ''alice'' \<and> ''2024-06-15'' \<le> tx_created_at t
       \<and> tx_created_at t \<le> ''2024-06-15T23:59:59''] =
     [\<lparr>tx_seller_id = ''alice'', tx_created_at = ''2024-06-15T09:00:00.000Z'',
       tx_status = Some ''completed'', tx_amount = Some 100, tx_seller_payout = Some 90,
       tx_platform_fee = Some 10\<rparr>]
   \<and> seller_expenses sale_db = []
   \<and> outcome_at (fst (get_financial_dashboard example_env ''alice''
      (example_request ''GET'' ''/store-api/financial/dashboard'' [] (Some ''Bearer token-alice'')) sale_db))
      [''data'', ''summary'', ''revenue''] = Some (JNum 90)
   \<and> outcome_at (fst (get_financial_dashboard example_env ''alice''
      (example_request ''GET'' ''/store-api/financial/dashboard'' [] (Some ''Bearer token-alice'')) sale_db))
      [''data'', ''summary'', ''commission''] = Some (JNum 10)
   \<and> outcome_at (fst (get_financial_dashboard example_env ''alice''
      (example_request ''GET'' ''/store-api/financial/dashboard'' [] (Some ''Bearer token-alice'')) sale_db))
      [''data'', ''summary'', ''net_profit''] = Some (JNum 90)"
proof -
  let ?req = "example_request ''GET'' ''/store-api/financial/dashboard'' [] (Some ''Bearer token-alice'')"
  have p: "map_of (req_search ?req) ''period'' = None" by (simp add: example_request_def)
  have s: "take 10 (toISOString example_env (now example_env - 30 * 86400000)) = ''2024-06-15''"
    "take 10 (toISOString example_env (now example_env)) = ''2024-06-15''"
    by (simp_all add: example_env_def)
  have T: "[t \<leftarrow> transactions sale_db. tx_seller_id t = ''alice'' \<and> ''2024-06-15'' \<le> tx_created_at t
       \<and> tx_created_at t \<le> ''2024-06-15'' @ ''T23:59:59''] =
     [\<lparr>tx_seller_id = ''alice'', tx_created_at = ''2024-06-15T09:00:00.000Z'',
       tx_status = Some ''completed'', tx_amount = Some 100, tx_seller_payout = Some 90,
       tx_platform_fee = Some 10\<rparr>]"
    by (simp add: sale_db_def example_db_def)
  have X: "seller_expenses sale_db = []" by (simp add: sale_db_def)
  have d: "(if map_of (req_search ?req) ''period'' = Some ''7d'' then 7
       else if map_of (req_search ?req) ''period'' = Some ''90d'' then 90
       else if map_of (req_search ?req) ''period'' = Some ''1y'' then 365 else (30::int)) = 30"
    by (simp add: p)
  note sums = dashboard_summary_sums [where req = ?req and e = example_env and d = sale_db
      and userId = "''alice''", unfolded Let_def d s T X filter.simps]
  note imp = sums [THEN conjunct2, THEN conjunct2, THEN conjunct2, THEN conjunct2,
      THEN conjunct2, THEN conjunct2, THEN conjunct2, THEN conjunct2]
  have "outcome_at (fst (get_financial_dashboard example_env ''alice'' ?req sale_db))
        [''data'', ''summary'', ''revenue''] = Some (JNum 90)
     \<and> outcome_at (fst (get_financial_dashboard example_env ''alice'' ?req sale_db))
        [''data'', ''summary'', ''commission''] = Some (JNum 10)
     \<and> outcome_at (fst (get_financial_dashboard example_env ''alice'' ?req sale_db))
        [''data'', ''summary'', ''net_profit''] = Some (JNum 90)"
    by (rule imp [THEN mp]) simp
  with T X show ?thesis by simp
qed

subsection \<open>Profit margin at zero revenue\<close>

text \<open>
  C5, as amended. \<^verbatim>\<open>GET /financial/dashboard\<close> and
  \<^verbatim>\<open>GET /financial/reports/profit-loss\<close> always answer 200, and report the
  \<^verbatim>\<open>profit_margin\<close> \<^verbatim>\<open>"0"\<close> when the revenue of the completed transactions in
  range is 0. \<^verbatim>\<open>GET /financial/reports/tax\<close> always answers 200 too, but its report
  holds sums only: no \<^verbatim>\<open>profit_margin\<close> and no other ratio, so nothing is divided.
\<close>

theorem zero_revenue_margin:
  "(let (startDate, endDate) = dashboard_range e req;
        revenue = (\<Sum>t \<leftarrow> [t \<leftarrow> tx_query userId startDate endDate d. has_status ''completed'' t]. payout t);
        out = fst (get_financial_dashboard e userId req d)
    in outcome_status out = Some 200
     \<and> (revenue = 0 \<longrightarrow> outcome_at out [''data'', ''summary'', ''profit_margin''] = Some (JStr ''0'')))
   \<and> (let (startDate, endDate) = profit_loss_range e req;
        revenue = (\<Sum>t \<leftarrow> [t \<leftarrow> tx_query userId startDate endDate d. has_status ''completed'' t]. payout t);
        out = fst (get_financial_profit_loss e userId req d)
    in outcome_status out = Some 200
     \<and> (revenue = 0 \<longrightarrow> outcome_at out [''data'', ''profit_margin''] = Some (JStr ''0'')))
   \<and> (let out = fst (get_financial_tax e userId req d)
    in outcome_status out = Some 200
     \<and> map_option object_keys (outcome_at out [''data'']) =
         Some [''report_type'', ''year'', ''quarter'', ''total_sales'', ''total_refunds'',
               ''total_expenses'', ''taxable_income'', ''status''])"
proof (intro conjI)
  obtain s t where r: "dashboard_range e req = (s, t)" by (cases "dashboard_range e req")
  show "let (startDate, endDate) = dashboard_range e req;
        revenue = (\<Sum>t \<leftarrow> [t \<leftarrow> tx_query userId startDate endDate d. has_status ''completed'' t]. payout t);
        out = fst (get_financial_dashboard e userId req d)
    in outcome_status out = Some 200
     \<and> (revenue = 0 \<longrightarrow> outcome_at out [''data'', ''summary'', ''profit_margin''] = Some (JStr ''0''))"
    unfolding r Let_def split_conv
    by (simp add: get_financial_dashboard_def r Let_def outcome_at_ok outcome_status_ok
        success_def reduce_sum_sum_list)
next
  obtain s t where r: "profit_loss_range e req = (s, t)" by (cases "profit_loss_range e req")
  show "let (startDate, endDate) = profit_loss_range e req;
        revenue = (\<Sum>t \<leftarrow> [t \<leftarrow> tx_query userId startDate endDate d. has_status ''completed'' t]. payout t);
        out = fst (get_financial_profit_loss e userId req d)
    in outcome_status out = Some 200
     \<and> (revenue = 0 \<longrightarrow> outcome_at out [''data'', ''profit_margin''] = Some (JStr ''0''))"
    unfolding r Let_def split_conv
    by (simp add: get_financial_profit_loss_def r Let_def outcome_at_ok outcome_status_ok
        success_def reduce_sum_sum_list)
next
  obtain s t where r: "tax_range e req = (s, t)" by (cases "tax_range e req")
  show "let out = fst (get_financial_tax e userId req d)
    in outcome_status out = Some 200
     \<and> map_option object_keys (outcome_at out [''data'']) =
         Some [''report_type'', ''year'', ''quarter'', ''total_sales'', ''total_refunds'',
               ''total_expenses'', ''taxable_income'', ''status'']"
    by (simp add: get_financial_tax_def r Let_def outcome_at_ok outcome_status_ok
        success_def object_keys_def)
qed

text \<open>The theorem for the second seller of the example store, who has no transactions.\<close>

theorem zero_revenue_margin_witness:
  "tx_query ''bob'' ''2024-06-15'' ''2024-06-15'' example_db = []
   \<and> outcome_at (fst (get_financial_dashboard example_env ''bob''
        (example_request ''GET'' ''/store-api/financial/dashboard'' [] (Some ''Bearer token-bob'')) example_db))
        [''data'', ''summary'', ''profit_margin''] = Some (JStr ''0'')
   \<and> outcome_at (fst (get_financial_profit_loss example_env ''bob''
        (example_request ''GET'' ''/store-api/financial/reports/profit-loss'' [] (Some ''Bearer token-bob'')) example_db))
        [''data'', ''profit_margin''] = Some (JStr ''0'')"
proof -
  let ?req = "example_request ''GET'' ''/store-api/financial/dashboard'' [] (Some ''Bearer token-bob'')"
  let ?req' = "example_request ''GET'' ''/store-api/financial/reports/profit-loss'' [] (Some ''Bearer token-bob'')"
  have r: "dashboard_range example_env ?req = (''2024-06-15'', ''2024-06-15'')"
    by (simp add: dashboard_range_def example_env_def example_request_def searchParams_get_def Let_def)
  have r': "profit_loss_range example_env ?req' = (''2024-06-15'', ''2024-06-15'')"
    by (simp add: profit_loss_range_def example_env_def example_request_def searchParams_get_def Let_def)
  have T: "tx_query ''bob'' ''2024-06-15'' ''2024-06-15'' example_db = []"
    by (simp add: tx_query_def example_db_def)
  note a = zero_revenue_margin [of example_env ?req "''bob''" example_db, THEN conjunct1,
      unfolded r Let_def split_conv T]
  note b = zero_revenue_margin [of example_env ?req' "''bob''" example_db, THEN conjunct2, THEN conjunct1,
      unfolded r' Let_def split_conv T]
  from a b T show ?thesis by simp
qed

text \<open>
  C5 as stated fails for the tax report: at revenue 0 the report of the second seller has
  \<^verbatim>\<open>total_sales\<close> 0 and no \<^verbatim>\<open>profit_margin\<close> member at all, rather than the
  text \<^verbatim>\<open>"0"\<close>.
\<close>

theorem tax_report_without_margin_counterexample:
  "outcome_at (fst (get_financial_tax example_env ''bob''
      (example_request ''GET'' ''/store-api/financial/reports/tax'' [(''year'', ''2024'')] (Some ''Bearer token-bob''))
      example_db)) [''data'', ''total_sales''] = Some (JNum 0)
   \<and> outcome_at (fst (get_financial_tax example_env ''bob''
      (example_request ''GET'' ''/store-api/financial/reports/tax'' [(''year'', ''2024'')] (Some ''Bearer token-bob''))
      example_db)) [''data'', ''profit_margin''] = None"
  by (simp add: get_financial_tax_def tax_range_def Let_def outcome_at_ok success_def
      example_request_def searchParams_get_def example_db_def tx_query_def expense_query_def
      reduce_sum_def)

subsection \<open>Pagination\<close>

lemma range_rows_page:
  assumes "1 \<le> p" and "1 \<le> l"
  shows "range_rows (range_from (Some p) (Some l)) (range_to (Some p) (Some l)) q
       = Some (take (nat l) (drop (nat ((p - 1) * l)) q))"
proof -
  have "p * l - 1 - (p - 1) * l + 1 = l" by (simp add: algebra_simps)
  moreover from assms have "0 \<le> (p - 1) * l" by simp
  ultimately show ?thesis using assms
    by (simp add: range_rows_def range_from_def range_to_def)
qed

lemma paginated_response:
  assumes "1 \<le> p" and "1 \<le> l" and "key \<noteq> ''pagination''"
  shows "spec_paginated
     (ok (success (JObj [(key, JArr (map f (take (nat (min l 100)) rest))),
                         (''pagination'', pagination_json (Some p) (Some (min l 100)) n)])))
     key p l"
proof -
  from assms have pos: "min l 100 \<noteq> 0" "0 \<le> min l 100" by auto
  have "length (map f (take (nat (min l 100)) rest)) \<le> nat (min l 100)" by simp
  with pos have len: "int (length (map f (take (nat (min l 100)) rest))) \<le> min l 100"
    by linarith
  show ?thesis
    unfolding spec_paginated_def Let_def
    apply (simp only: outcome_status_ok outcome_at_ok simp_thms)
    apply (rule exI [of _ "map f (take (nat (min l 100)) rest)"])
    apply (rule exI [of _ n])
    using len pos assms(3)
    apply (simp add: success_def pagination_json_def pages_json_def num_json_def)
    done
qed

text \<open>
  C7, as amended. For \<^verbatim>\<open>GET /reviews\<close> and \<^verbatim>\<open>GET /financial/expenses\<close> with
  a page of at least 1 and a limit of at least 1 (given, or the default 50), the response
  is 200, the limit reported and applied is the requested one capped at 100, no more rows
  than that are returned, and \<^verbatim>\<open>pages = ceil(total / limit)\<close>.
\<close>

theorem pagination_limit_and_pages:
  assumes "parseInt (or_default (searchParams_get req ''page'') ''1'') = Some p" and "1 \<le> p"
    and "parseInt (or_default (searchParams_get req ''limit'') ''50'') = Some l" and "1 \<le> l"
  shows "spec_paginated (fst (get_reviews e userId req d)) ''reviews'' p l
       \<and> spec_paginated (fst (get_financial_expenses e userId req d)) ''expenses'' p l
       \<and> min l 100 \<le> 100"
proof -
  from assms have m: "1 \<le> min l 100" by simp
  note rr = range_rows_page [OF assms(2) m]
  have a: "spec_paginated (fst (get_reviews e userId req d)) ''reviews'' p l"
    unfolding get_reviews_def Let_def assms(1,3) min100_def option.map fst_case_option rr option.case fst_conv
    by (rule paginated_response [OF assms(2,4)]) simp
  have b: "spec_paginated (fst (get_financial_expenses e userId req d)) ''expenses'' p l"
    unfolding get_financial_expenses_def Let_def assms(1,3) min100_def option.map fst_case_option rr option.case fst_conv
    by (rule paginated_response [OF assms(2,4)]) simp
  from a b show ?thesis by simp
qed

text \<open>The theorem for \<^verbatim>\<open>GET /reviews?page=1&limit=500\<close> in the example store.\<close>

theorem pagination_limit_and_pages_witness:
  "parseInt (or_default (searchParams_get
      (example_request ''GET'' ''/store-api/reviews'' [(''page'', ''1''), (''limit'', ''500'')] (Some ''Bearer token-alice''))
      ''limit'') ''50'') = Some 500
   \<and> spec_paginated (fst (get_reviews example_env ''alice''
      (example_request ''GET'' ''/store-api/reviews'' [(''page'', ''1''), (''limit'', ''500'')] (Some ''Bearer token-alice''))
      example_db)) ''reviews'' 1 500
   \<and> outcome_at (fst (get_reviews example_env ''alice''
      (example_request ''GET'' ''/store-api/reviews'' [(''page'', ''1''), (''limit'', ''500'')] (Some ''Bearer token-alice''))
      example_db)) [''data'', ''pagination'', ''limit''] = Some (JNum 100)"
proof -
  let ?req = "example_request ''GET'' ''/store-api/reviews'' [(''page'', ''1''), (''limit'', ''500'')] (Some ''Bearer token-alice'')"
  have p: "parseInt (or_default (searchParams_get ?req ''page'') ''1'') = Some 1"
    by (simp add: example_request_def searchParams_get_def) code_simp
  have l: "parseInt (or_default (searchParams_get ?req ''limit'') ''50'') = Some 500"
    by (simp add: example_request_def searchParams_get_def) code_simp
  from pagination_limit_and_pages [OF p _ l, of example_env "''alice''" example_db]
  have s: "spec_paginated (fst (get_reviews example_env ''alice'' ?req example_db)) ''reviews'' 1 500"
    by simp
  then have "outcome_at (fst (get_reviews example_env ''alice'' ?req example_db))
      [''data'', ''pagination'', ''limit''] = Some (JNum 100)"
    by (auto simp: spec_paginated_def Let_def outcome_at_def split: outcome.splits option.splits)
  with l s show ?thesis by simp
qed

text \<open>
  C7 as stated fails for a requested limit of 0, which the handlers do not raise: for
  \<^verbatim>\<open>GET /reviews?limit=0\<close> (page 1 by default) the response is 200 with limit 0,
  total 1 and \<^verbatim>\<open>pages\<close> null, the JSON form of the division by zero.
\<close>

theorem zero_limit_pages_counterexample:
  "parseInt (or_default (searchParams_get
      (example_request ''GET'' ''/store-api/reviews'' [(''limit'', ''0'')] (Some ''Bearer token-alice''))
      ''page'') ''1'') = Some 1
   \<and> outcome_status (fst (get_reviews example_env ''alice''
      (example_request ''GET'' ''/store-api/reviews'' [(''limit'', ''0'')] (Some ''Bearer token-alice''))
      example_db)) = Some 200
   \<and> outcome_at (fst (get_reviews example_env ''alice''
      (example_request ''GET'' ''/store-api/reviews'' [(''limit'', ''0'')] (Some ''Bearer token-alice''))
      example_db)) [''data'', ''pagination''] =
      Some (JObj [(''page'', JNum 1), (''limit'', JNum 0), (''total'', JNum 1), (''pages'', JNull)])"
  by code_simp

subsection \<open>Deleting an expense\<close>

lemma range_rows_subset: "range_rows a b q = Some r \<Longrightarrow> set r \<subseteq> set q"
  by (auto simp: range_rows_def split: option.splits if_splits dest: in_set_takeD in_set_dropD)

lemma set_order_desc: "set (order_desc f xs) = set xs"
  by (simp add: order_desc_def)

lemma dashboard_expenses_field:
  "outcome_at (fst (get_financial_dashboard e userId req d)) [''data'', ''summary'', ''expenses'']
     = Some (JNum (\<Sum>x \<leftarrow> expense_query userId (fst (dashboard_range e req)) (snd (dashboard_range e req)) d.
                     expense_amount x))"
  by (simp add: get_financial_dashboard_def Let_def split_def outcome_at_ok success_def
      reduce_sum_sum_list)

lemma listed_expenses_are_active:
  assumes "outcome_at (fst (get_financial_expenses e userId req d)) [''data'', ''expenses''] = Some (JArr rows)"
    and "j \<in> set rows"
  shows "\<exists>x \<in> set (seller_expenses d). ex_seller_id x = userId \<and> ex_status x = ''active'' \<and> j = expense_json x"
proof -
  define base where "base = [x \<leftarrow> seller_expenses d. ex_seller_id x = userId \<and> ex_status x = ''active'']"
  obtain q a b where q: "set q \<subseteq> set base"
    and out: "fst (get_financial_expenses e userId req d) =
      (case range_rows a b q of None \<Rightarrow> Threw StoreError
       | Some expenses \<Rightarrow> ok (success (JObj [(''expenses'', JArr (map expense_json expenses)),
           (''pagination'', pagination_json
              (parseInt (or_default (searchParams_get req ''page'') ''1''))
              (min100 (parseInt (or_default (searchParams_get req ''limit'') ''50''))) (length q))])))"
  proof -
    let ?c = "or_default (searchParams_get req ''category'') []"
    let ?s = "or_default (searchParams_get req ''start_date'') []"
    let ?t = "or_default (searchParams_get req ''end_date'') []"
    let ?q1 = "if ?c \<noteq> [] then [x \<leftarrow> base. ex_category x = Some ?c] else base"
    let ?q2 = "if ?s \<noteq> [] then [x \<leftarrow> ?q1. ?s \<le> ex_expense_date x] else ?q1"
    let ?q3 = "if ?t \<noteq> [] then [x \<leftarrow> ?q2. ex_expense_date x \<le> ?t] else ?q2"
    let ?q = "order_desc ex_expense_date ?q3"
    have "set ?q \<subseteq> set base" by (auto simp: set_order_desc)
    moreover have "fst (get_financial_expenses e userId req d) =
      (case range_rows
          (range_from (parseInt (or_default (searchParams_get req ''page'') ''1''))
             (min100 (parseInt (or_default (searchParams_get req ''limit'') ''50''))))
          (range_to (parseInt (or_default (searchParams_get req ''page'') ''1''))
             (min100 (parseInt (or_default (searchParams_get req ''limit'') ''50'')))) ?q of
         None \<Rightarrow> Threw StoreError
       | Some expenses \<Rightarrow> ok (success (JObj [(''expenses'', JArr (map expense_json expenses)),
           (''pagination'', pagination_json
              (parseInt (or_default (searchParams_get req ''page'') ''1''))
              (min100 (parseInt (or_default (searchParams_get req ''limit'') ''50''))) (length ?q))])))"
      unfolding get_financial_expenses_def Let_def base_def fst_case_option
      by (rule refl)
    ultimately show ?thesis using that by blast
  qed
  show ?thesis
  proof (cases "range_rows a b q")
    case None
    with out assms(1) show ?thesis by (simp add: outcome_at_def)
  next
    case (Some r)
    with out assms(1) have "rows = map expense_json r"
      by (simp add: outcome_at_ok success_def)
    with assms(2) obtain x where x: "x \<in> set r" "j = expense_json x" by auto
    from range_rows_subset [OF Some] q x(1) have "x \<in> set base" by blast
    with x(2) show ?thesis by (auto simp: base_def)
  qed
qed

lemma expense_query_after_delete:
  "expense_query userId s t (snd (delete_financial_expense e userId path req d))
     = [x \<leftarrow> expense_query userId s t d. ex_id x \<noteq> segment path 3]"
proof -
  have "[x \<leftarrow> map (\<lambda>x. if ex_id x = i \<and> ex_seller_id x = userId
                          then x\<lparr>ex_status := ''deleted'', ex_updated_at := ts\<rparr> else x) xs.
           ex_seller_id x = userId \<and> ex_status x = ''active'' \<and> s \<le> ex_expense_date x \<and> ex_expense_date x \<le> t]
        = [x \<leftarrow> [x \<leftarrow> xs. ex_seller_id x = userId \<and> ex_status x = ''active''
                     \<and> s \<le> ex_expense_date x \<and> ex_expense_date x \<le> t]. ex_id x \<noteq> i]" for i ts xs
    by (induction xs) auto
  then show ?thesis
    by (simp add: expense_query_def delete_financial_expense_def Let_def)
qed

text \<open>
  C8. \<^verbatim>\<open>DELETE /financial/expenses/:id\<close> on an expense of the caller answers 200,
  keeps every row of the table in its place (same length, same identifiers) and leaves
  the caller's rows of that identifier with status \<^verbatim>\<open>deleted\<close>. Afterwards no
  listing of \<^verbatim>\<open>GET /financial/expenses\<close> for the caller contains the expense, and
  the \<^verbatim>\<open>expenses\<close> sum of the caller's dashboard is the sum over the active
  expenses in range other than the deleted one.
\<close>

theorem expense_soft_delete:
  assumes "is_expense_path path"
    and "x0 \<in> set (seller_expenses d)" and "ex_id x0 = segment path 3" and "ex_seller_id x0 = userId"
  shows "(let d' = snd (delete_financial_expense e userId path req d); eid = segment path 3 in
      outcome_status (fst (delete_financial_expense e userId path req d)) = Some 200
    \<and> length (seller_expenses d') = length (seller_expenses d)
    \<and> map ex_id (seller_expenses d') = map ex_id (seller_expenses d)
    \<and> (\<forall>x \<in> set (seller_expenses d'). ex_id x = eid \<and> ex_seller_id x = userId \<longrightarrow> ex_status x = ''deleted'')
    \<and> (\<exists>x \<in> set (seller_expenses d'). ex_id x = eid \<and> ex_seller_id x = userId \<and> ex_status x = ''deleted'')
    \<and> (\<forall>e2 req2 rows. outcome_at (fst (get_financial_expenses e2 userId req2 d')) [''data'', ''expenses'']
            = Some (JArr rows) \<longrightarrow> (\<forall>j \<in> set rows. get_member j ''id'' \<noteq> Some (JStr eid)))
    \<and> (\<forall>e2 req2. outcome_at (fst (get_financial_dashboard e2 userId req2 d')) [''data'', ''summary'', ''expenses'']
            = Some (JNum (\<Sum>x \<leftarrow> [x \<leftarrow> expense_query userId (fst (dashboard_range e2 req2))
                                        (snd (dashboard_range e2 req2)) d. ex_id x \<noteq> eid]. expense_amount x))))"
proof -
  let ?eid = "segment path 3"
  let ?f = "\<lambda>x. if ex_id x = ?eid \<and> ex_seller_id x = userId
                 then x\<lparr>ex_status := ''deleted'', ex_updated_at := toISOString e (now e)\<rparr> else x"
  let ?d' = "snd (delete_financial_expense e userId path req d)"
  have rows: "seller_expenses ?d' = map ?f (seller_expenses d)"
    by (simp add: delete_financial_expense_def Let_def)
  have st: "outcome_status (fst (delete_financial_expense e userId path req d)) = Some 200"
    by (simp add: delete_financial_expense_def Let_def outcome_status_ok)
  have len: "length (seller_expenses ?d') = length (seller_expenses d)"
    by (simp add: rows)
  have ids: "map ex_id (seller_expenses ?d') = map ex_id (seller_expenses d)"
    by (simp add: rows o_def)
  have all: "\<forall>x \<in> set (seller_expenses ?d'). ex_id x = ?eid \<and> ex_seller_id x = userId \<longrightarrow> ex_status x = ''deleted''"
  proof (intro ballI impI)
    fix x
    assume "x \<in> set (seller_expenses ?d')" and c: "ex_id x = ?eid \<and> ex_seller_id x = userId"
    then obtain y where y: "x = ?f y"
      unfolding rows set_map by blast
    show "ex_status x = ''deleted''"
    proof (cases "ex_id y = ?eid \<and> ex_seller_id y = userId")
      case True
      with y show ?thesis by simp
    next
      case False
      with y have "x = y" by simp
      with c False show ?thesis by simp
    qed
  qed
  have "?f x0 \<in> set (seller_expenses ?d')" using assms(2) by (simp add: rows)
  moreover have "ex_id (?f x0) = ?eid \<and> ex_seller_id (?f x0) = userId \<and> ex_status (?f x0) = ''deleted''"
    using assms(3,4) by simp
  ultimately have ex: "\<exists>x \<in> set (seller_expenses ?d'). ex_id x = ?eid \<and> ex_seller_id x = userId \<and> ex_status x = ''deleted''"
    by blast
  have listing: "\<forall>e2 req2 rows. outcome_at (fst (get_financial_expenses e2 userId req2 ?d')) [''data'', ''expenses'']
            = Some (JArr rows) \<longrightarrow> (\<forall>j \<in> set rows. get_member j ''id'' \<noteq> Some (JStr ?eid))"
  proof (intro allI impI ballI)
    fix e2 req2 rows j
    assume o: "outcome_at (fst (get_financial_expenses e2 userId req2 ?d')) [''data'', ''expenses''] = Some (JArr rows)"
      and j: "j \<in> set rows"
    from listed_expenses_are_active [OF o j] obtain x where x: "x \<in> set (seller_expenses ?d')"
      "ex_seller_id x = userId" "ex_status x = ''active''" "j = expense_json x" by blast
    from all x(1,2,3) have "ex_id x \<noteq> ?eid" by auto
    with x(4) show "get_member j ''id'' \<noteq> Some (JStr ?eid)" by (simp add: expense_json_def)
  qed
  have dash: "\<forall>e2 req2. outcome_at (fst (get_financial_dashboard e2 userId req2 ?d')) [''data'', ''summary'', ''expenses'']
            = Some (JNum (\<Sum>x \<leftarrow> [x \<leftarrow> expense_query userId (fst (dashboard_range e2 req2))
                                        (snd (dashboard_range e2 req2)) d. ex_id x \<noteq> ?eid]. expense_amount x))"
    by (simp add: dashboard_expenses_field expense_query_after_delete)
  show ?thesis
    unfolding Let_def
    apply (intro conjI)
          apply (rule st)
         apply (rule len)
        apply (rule ids)
       apply (rule all)
      apply (rule ex)
     apply (rule listing)
    apply (rule dash)
    done
qed

text \<open>
  The theorem for the one expense of the first seller in the example store: the row
  stays, and the dashboard sum of expenses drops to 0.
\<close>

theorem expense_soft_delete_witness:
  "is_expense_path ''/financial/expenses/e1''
   \<and> (\<exists>x \<in> set (seller_expenses example_db). ex_id x = ''e1'' \<and> ex_seller_id x = ''alice'')
   \<and> length (seller_expenses (snd (delete_financial_expense example_env ''alice'' ''/financial/expenses/e1''
        (example_request ''DELETE'' ''/store-api/financial/expenses/e1'' [] (Some ''Bearer token-alice'')) example_db))) = 1
   \<and> outcome_at (fst (get_financial_dashboard example_env ''alice''
        (example_request ''GET'' ''/store-api/financial/dashboard'' [] (Some ''Bearer token-alice''))
        (snd (delete_financial_expense example_env ''alice'' ''/financial/expenses/e1''
          (example_request ''DELETE'' ''/store-api/financial/expenses/e1'' [] (Some ''Bearer token-alice'')) example_db))))
        [''data'', ''summary'', ''expenses''] = Some (JNum 0)"
proof -
  let ?req = "example_request ''DELETE'' ''/store-api/financial/expenses/e1'' [] (Some ''Bearer token-alice'')"
  let ?get = "example_request ''GET'' ''/store-api/financial/dashboard'' [] (Some ''Bearer token-alice'')"
  let ?x = "hd (seller_expenses example_db)"
  have p: "is_expense_path ''/financial/expenses/e1''" by code_simp
  have seg: "segment ''/financial/expenses/e1'' 3 = ''e1''" by code_simp
  have m: "?x \<in> set (seller_expenses example_db)" by (simp add: example_db_def)
  have i: "ex_id ?x = segment ''/financial/expenses/e1'' 3" by (simp add: seg example_db_def)
  have u: "ex_seller_id ?x = ''alice''" by (simp add: example_db_def)
  note t = expense_soft_delete [OF p m i u, of example_env ?req, unfolded Let_def seg]
  have r: "dashboard_range example_env ?get = (''2024-06-15'', ''2024-06-15'')"
    by (simp add: dashboard_range_def example_env_def example_request_def searchParams_get_def Let_def)
  have q: "[x \<leftarrow> expense_query ''alice'' ''2024-06-15'' ''2024-06-15'' example_db. ex_id x \<noteq> ''e1''] = []"
    by (simp add: expense_query_def example_db_def)
  note len = t [THEN conjunct2, THEN conjunct1]
  note dash = t [THEN conjunct2, THEN conjunct2, THEN conjunct2, THEN conjunct2, THEN conjunct2,
      THEN conjunct2, THEN spec, THEN spec, of example_env ?get, unfolded r fst_conv snd_conv q]
  have n: "length (seller_expenses example_db) = 1" by (simp add: example_db_def)
  have own: "\<exists>x \<in> set (seller_expenses example_db). ex_id x = ''e1'' \<and> ex_seller_id x = ''alice''"
    by (simp add: example_db_def)
  from p own len n dash show ?thesis by simp
qed

end
